theory Spec2Isabelle
  imports Complex_Main "HOL-Library.Product_Lexorder"
begin

section \<open>Python values used by the session core\<close>

text \<open>
  Python strings are HOL strings: a sequence of characters whose \<open>len\<close> is
  \<^const>\<open>length\<close>. Python integers are \<^typ>\<open>int\<close>, lengths and counts are
  \<^typ>\<open>nat\<close>. A finite float is the rational number it denotes.
\<close>

subsection \<open>Exceptions\<close>

text \<open>
  The exception classes the modelled code raises, catches or lets through.
  \<open>KeyboardInterrupt\<close>, \<open>SystemExit\<close>, \<open>GeneratorExit\<close> and
  \<open>CancelledError\<close> (asyncio) derive from \<open>BaseException\<close> only; every other
  class listed derives from \<open>Exception\<close>. An exception value carries its class and
  the text \<open>str(e)\<close>.
\<close>

datatype exc_class =
    KeyboardInterrupt | SystemExit | GeneratorExit | CancelledError
  | Exception | RuntimeError | ValueError | TypeError | KeyError | AttributeError
  | FileNotFoundError | IsADirectoryError | JSONDecodeError
  | NotADirectoryError | PermissionError | OSError | UnicodeDecodeError | RecursionError

datatype py_exc = Exc exc_class string

fun exc_class_of :: "py_exc \<Rightarrow> exc_class" where
  "exc_class_of (Exc c m) = c"

fun str_exc :: "py_exc \<Rightarrow> string" where
  "str_exc (Exc c m) = m"

fun isinstance_Exception :: "exc_class \<Rightarrow> bool" where
  "isinstance_Exception KeyboardInterrupt = False"
| "isinstance_Exception SystemExit = False"
| "isinstance_Exception GeneratorExit = False"
| "isinstance_Exception CancelledError = False"
| "isinstance_Exception c = True"

subsection \<open>JSON values\<close>

text \<open>
  What \<open>json.load\<close> returns and \<open>json.dump\<close> accepts. A \<open>dict\<close> with string
  keys is an association list in insertion order; lookup takes the first entry of a key.
\<close>

datatype json =
    JNull
  | JBool bool
  | JNum rat
  | JString string
  | JArray "json list"
  | JObject "(string \<times> json) list"

type_synonym py_dict = "(string \<times> json) list"

text \<open>\<open>data[key]\<close> with a string key.\<close>

fun getitem :: "json \<Rightarrow> string \<Rightarrow> py_exc + json" where
  "getitem (JObject kvs) k =
     (case map_of kvs k of None \<Rightarrow> Inl (Exc KeyError k) | Some v \<Rightarrow> Inr v)"
| "getitem j k = Inl (Exc TypeError k)"

text \<open>\<open>data.get(key, default)\<close>.\<close>

fun get_default :: "json \<Rightarrow> string \<Rightarrow> json \<Rightarrow> py_exc + json" where
  "get_default (JObject kvs) k d =
     (case map_of kvs k of None \<Rightarrow> Inr d | Some v \<Rightarrow> Inr v)"
| "get_default j k d = Inl (Exc AttributeError ''get'')"

text \<open>Iteration, as a list comprehension \<open>[f(x) for x in v]\<close> sees the value.\<close>

fun py_iter :: "json \<Rightarrow> py_exc + json list" where
  "py_iter (JArray xs) = Inr xs"
| "py_iter (JObject kvs) = Inr (map (\<lambda>kv. JString (fst kv)) kvs)"
| "py_iter (JString s) = Inr (map (\<lambda>c. JString [c]) s)"
| "py_iter j = Inl (Exc TypeError ''not iterable'')"

text \<open>Sequencing of calls that may raise: the first exception ends the evaluation.\<close>

fun bind_exc :: "py_exc + 'a \<Rightarrow> ('a \<Rightarrow> py_exc + 'b) \<Rightarrow> py_exc + 'b" where
  "bind_exc (Inl e) f = Inl e"
| "bind_exc (Inr x) f = f x"

fun map_exc :: "('a \<Rightarrow> py_exc + 'b) \<Rightarrow> 'a list \<Rightarrow> py_exc + 'b list" where
  "map_exc f [] = Inr []"
| "map_exc f (x # xs) =
     bind_exc (f x) (\<lambda>y. bind_exc (map_exc f xs) (\<lambda>ys. Inr (y # ys)))"

subsection \<open>Slices\<close>

text \<open>\<open>xs[i:]\<close> and \<open>xs[:j]\<close>: a negative index counts from the end, and an index
  beyond either end is clipped.\<close>

definition slice_from :: "int \<Rightarrow> 'a list \<Rightarrow> 'a list" where
  "slice_from i xs =
     drop (nat (if i < 0 then max (int (length xs) + i) 0 else i)) xs"

definition slice_to :: "int \<Rightarrow> 'a list \<Rightarrow> 'a list" where
  "slice_to j xs =
     take (nat (if j < 0 then max (int (length xs) + j) 0 else j)) xs"

subsection \<open>Decimal text\<close>

definition digit_char :: "nat \<Rightarrow> char" where
  "digit_char n = ''0123456789'' ! (n mod 10)"

text \<open>\<open>str(n)\<close> for \<open>n \<ge> 0\<close>.\<close>

fun str_nat :: "nat \<Rightarrow> string" where
  "str_nat n = (if n < 10 then [digit_char n] else str_nat (n div 10) @ [digit_char n])"

declare str_nat.simps [simp del]

text \<open>\<open>"%0kd"\<close>: zero padding on the left up to width \<open>k\<close>.\<close>

definition zpad :: "nat \<Rightarrow> nat \<Rightarrow> string" where
  "zpad k n = replicate (k - length (str_nat n)) (CHR ''0'') @ str_nat n"

subsection \<open>Naive datetimes\<close>

text \<open>
  \<open>datetime.now()\<close> returns a naive datetime: year, month, day, hour, minute, second,
  microsecond. Python compares naive datetimes field by field in that order.
\<close>

datatype datetime = Datetime nat nat nat nat nat nat nat

fun dt_fields :: "datetime \<Rightarrow> nat \<times> nat \<times> nat \<times> nat \<times> nat \<times> nat \<times> nat" where
  "dt_fields (Datetime y mo d h mi s us) = (y, mo, d, h, mi, s, us)"

definition dt_le :: "datetime \<Rightarrow> datetime \<Rightarrow> bool" where
  "dt_le a b = (dt_fields a \<le> dt_fields b)"

text \<open>\<open>d.isoformat()\<close>: the microseconds are written only when they are not zero.\<close>

fun isoformat :: "datetime \<Rightarrow> string" where
  "isoformat (Datetime y mo d h mi s us) =
     zpad 4 y @ ''-'' @ zpad 2 mo @ ''-'' @ zpad 2 d @ ''T''
       @ zpad 2 h @ '':'' @ zpad 2 mi @ '':'' @ zpad 2 s
       @ (if us = 0 then [] else ''.'' @ zpad 6 us)"

text \<open>\<open>d.strftime('%Y-%m-%d %H:%M:%S')\<close> and \<open>d.strftime('%H:%M:%S')\<close>, for a year of
  four digits.\<close>

fun strftime_date_time :: "datetime \<Rightarrow> string" where
  "strftime_date_time (Datetime y mo d h mi s us) =
     zpad 4 y @ ''-'' @ zpad 2 mo @ ''-'' @ zpad 2 d @ '' ''
       @ zpad 2 h @ '':'' @ zpad 2 mi @ '':'' @ zpad 2 s"

fun strftime_time :: "datetime \<Rightarrow> string" where
  "strftime_time (Datetime y mo d h mi s us) =
     zpad 2 h @ '':'' @ zpad 2 mi @ '':'' @ zpad 2 s"

text \<open>\<open>d.strftime('%Y%m%d_%H%M%S')\<close>, used in file names.\<close>

fun strftime_compact :: "datetime \<Rightarrow> string" where
  "strftime_compact (Datetime y mo d h mi s us) =
     zpad 4 y @ zpad 2 mo @ zpad 2 d @ ''_'' @ zpad 2 h @ zpad 2 mi @ zpad 2 s"

text \<open>
  The wall clock: \<open>clk i\<close> is what the \<open>i\<close>-th call of \<open>datetime.now()\<close> returns.
  Code that reads the clock takes the clock and the number of readings made so far.
\<close>

type_synonym clock = "nat \<Rightarrow> datetime"

section \<open>state/session.py\<close>

record ConversationMessage =
  role :: string
  content :: string
  timestamp :: datetime
  metadata :: py_dict
  tool_calls :: "py_dict list option"

record ToolExecution =
  tool_name :: string
  arguments :: py_dict
  result :: string
  execution_time :: rat
  timestamp :: datetime
  error :: "string option"

record SessionState =
  session_id :: string
  created_at :: datetime
  updated_at :: datetime
  messages :: "ConversationMessage list"
  tool_executions :: "ToolExecution list"
  current_agent :: string
  current_model :: string
  metadata :: py_dict

text \<open>
  The session manager owns one session state. \<open>ticks\<close> counts the clock readings made
  so far, so that the next \<open>datetime.now()\<close> is \<open>clk (ticks m)\<close>.
\<close>

record SessionManager =
  session_state :: SessionState
  ticks :: nat

text \<open>
  \<open>SessionManager.__init__\<close>: the dataclass defaults are evaluated in field order, so
  \<open>created_at\<close> is read from the clock before \<open>updated_at\<close>. The fresh UUID is an
  argument.
\<close>

definition init_manager :: "clock \<Rightarrow> nat \<Rightarrow> string \<Rightarrow> string \<Rightarrow> string \<Rightarrow> SessionManager" where
  "init_manager clk t uuid agent_type model =
     \<lparr> session_state =
         \<lparr> session_id = uuid, created_at = clk t, updated_at = clk (t + 1),
           messages = [], tool_executions = [],
           current_agent = agent_type, current_model = model,
           SessionState.metadata = [] \<rparr>,
       ticks = t + 2 \<rparr>"

text \<open>
  \<open>add_message\<close>: the message's \<open>timestamp\<close> default reads the clock, then the message
  is appended, then \<open>updated_at\<close> reads the clock again. \<open>metadata or {}\<close> replaces a
  missing or empty dictionary by the empty one. There is no check of \<open>role\<close>.
\<close>

definition add_message ::
  "clock \<Rightarrow> string \<Rightarrow> string \<Rightarrow> py_dict option \<Rightarrow> py_dict list option
     \<Rightarrow> SessionManager \<Rightarrow> SessionManager" where
  "add_message clk role_arg content_arg metadata_arg tool_calls_arg m =
     (let message =
            \<lparr> role = role_arg, content = content_arg,
              ConversationMessage.timestamp = clk (ticks m),
              ConversationMessage.metadata = (case metadata_arg of None \<Rightarrow> [] | Some d \<Rightarrow> d),
              tool_calls = tool_calls_arg \<rparr>;
          s = session_state m
      in m \<lparr> session_state := s \<lparr> messages := messages s @ [message],
                                 updated_at := clk (ticks m + 1) \<rparr>,
             ticks := ticks m + 2 \<rparr>)"

definition add_tool_execution ::
  "clock \<Rightarrow> string \<Rightarrow> py_dict \<Rightarrow> string \<Rightarrow> rat \<Rightarrow> string option
     \<Rightarrow> SessionManager \<Rightarrow> SessionManager" where
  "add_tool_execution clk name args res time err m =
     (let tool_execution =
            \<lparr> tool_name = name, arguments = args, result = res, execution_time = time,
              ToolExecution.timestamp = clk (ticks m), error = err \<rparr>;
          s = session_state m
      in m \<lparr> session_state := s \<lparr> tool_executions := tool_executions s @ [tool_execution],
                                 updated_at := clk (ticks m + 1) \<rparr>,
             ticks := ticks m + 2 \<rparr>)"

definition clear_history :: "clock \<Rightarrow> SessionManager \<Rightarrow> SessionManager" where
  "clear_history clk m =
     m \<lparr> session_state := (session_state m) \<lparr> messages := [], tool_executions := [],
                                             updated_at := clk (ticks m) \<rparr>,
         ticks := ticks m + 1 \<rparr>"

definition update_agent :: "clock \<Rightarrow> string \<Rightarrow> SessionManager \<Rightarrow> SessionManager" where
  "update_agent clk agent_type m =
     m \<lparr> session_state := (session_state m) \<lparr> current_agent := agent_type,
                                             updated_at := clk (ticks m) \<rparr>,
         ticks := ticks m + 1 \<rparr>"

definition update_model :: "clock \<Rightarrow> string \<Rightarrow> SessionManager \<Rightarrow> SessionManager" where
  "update_model clk model m =
     m \<lparr> session_state := (session_state m) \<lparr> current_model := model,
                                             updated_at := clk (ticks m) \<rparr>,
         ticks := ticks m + 1 \<rparr>"

text \<open>
  \<open>get_messages(limit, offset)\<close>: \<open>messages[offset:]\<close>, then \<open>[:limit]\<close> when \<open>limit\<close>
  is truthy, that is neither \<open>None\<close> nor \<open>0\<close>. The manager is not an output: the
  method assigns to nothing.
\<close>

definition get_messages :: "int option \<Rightarrow> int \<Rightarrow> SessionManager \<Rightarrow> ConversationMessage list" where
  "get_messages limit offset m =
     (let msgs = slice_from offset (messages (session_state m))
      in case limit of
           None \<Rightarrow> msgs
         | Some l \<Rightarrow> if l \<noteq> 0 then slice_to l msgs else msgs)"

text \<open>The loop of \<open>get_context\<close>: pop the oldest entry while entries remain and the
  running total is over the budget.\<close>

fun drop_oldest :: "int \<Rightarrow> (string \<times> string) list \<Rightarrow> int \<Rightarrow> (string \<times> string) list" where
  "drop_oldest budget [] total_chars = []"
| "drop_oldest budget (removed # context) total_chars =
     (if total_chars > budget
      then drop_oldest budget context (total_chars - int (length (snd removed)))
      else removed # context)"

definition total_content :: "(string \<times> string) list \<Rightarrow> int" where
  "total_content context = (\<Sum>msg\<leftarrow>context. int (length (snd msg)))"

text \<open>
  \<open>get_context(max_tokens)\<close>: an entry \<open>{"role": r, "content": c}\<close> is the pair
  \<open>(r, c)\<close>. The truncation runs when \<open>max_tokens\<close> is truthy.
\<close>

definition get_context :: "int option \<Rightarrow> SessionManager \<Rightarrow> (string \<times> string) list" where
  "get_context max_tokens m =
     (let context = map (\<lambda>msg. (role msg, content msg)) (messages (session_state m))
      in case max_tokens of
           None \<Rightarrow> context
         | Some n \<Rightarrow>
             if n \<noteq> 0
             then (let total_chars = total_content context
                   in if total_chars > n * 4
                      then drop_oldest (n * 4) context total_chars
                      else context)
             else context)"

subsection \<open>Serialisation\<close>

text \<open>\<open>ConversationMessage.to_dict\<close>, \<open>ToolExecution.to_dict\<close> and
  \<open>SessionState.to_dict\<close>.\<close>

definition ConversationMessage_to_dict :: "ConversationMessage \<Rightarrow> json" where
  "ConversationMessage_to_dict msg =
     JObject
       [(''role'', JString (role msg)),
        (''content'', JString (content msg)),
        (''timestamp'', JString (isoformat (ConversationMessage.timestamp msg))),
        (''metadata'', JObject (ConversationMessage.metadata msg)),
        (''tool_calls'',
           (case tool_calls msg of None \<Rightarrow> JNull | Some cs \<Rightarrow> JArray (map JObject cs)))]"

definition ToolExecution_to_dict :: "ToolExecution \<Rightarrow> json" where
  "ToolExecution_to_dict tool =
     JObject
       [(''tool_name'', JString (tool_name tool)),
        (''arguments'', JObject (arguments tool)),
        (''result'', JString (result tool)),
        (''execution_time'', JNum (execution_time tool)),
        (''timestamp'', JString (isoformat (ToolExecution.timestamp tool))),
        (''error'', (case error tool of None \<Rightarrow> JNull | Some e \<Rightarrow> JString e))]"

definition SessionState_to_dict :: "SessionState \<Rightarrow> json" where
  "SessionState_to_dict s =
     JObject
       [(''session_id'', JString (session_id s)),
        (''created_at'', JString (isoformat (created_at s))),
        (''updated_at'', JString (isoformat (updated_at s))),
        (''messages'', JArray (map ConversationMessage_to_dict (messages s))),
        (''tool_executions'', JArray (map ToolExecution_to_dict (tool_executions s))),
        (''current_agent'', JString (current_agent s)),
        (''current_model'', JString (current_model s)),
        (''metadata'', JObject (SessionState.metadata s))]"

text \<open>
  \<open>from_dict\<close> checks no types: it stores whatever value the document holds. An
  object whose fields hold values of the annotated types is \<open>Conforming\<close>; any other
  object Python builds just the same, and the typed records cannot hold it:
  \<open>Nonconforming\<close>. The type tests below are therefore made after every call that
  can raise.
\<close>

datatype 'a pyobj = Conforming 'a | Nonconforming

fun as_str :: "json \<Rightarrow> string option" where
  "as_str (JString s) = Some s"
| "as_str j = None"

fun as_dict :: "json \<Rightarrow> py_dict option" where
  "as_dict (JObject kvs) = Some kvs"
| "as_dict j = None"

fun as_num :: "json \<Rightarrow> rat option" where
  "as_num (JNum r) = Some r"
| "as_num j = None"

fun as_opt_str :: "json \<Rightarrow> string option option" where
  "as_opt_str JNull = Some None"
| "as_opt_str (JString s) = Some (Some s)"
| "as_opt_str j = None"

fun as_dict_list :: "json list \<Rightarrow> py_dict list option" where
  "as_dict_list [] = Some []"
| "as_dict_list (j # js) =
     (case (as_dict j, as_dict_list js) of
        (Some d, Some ds) \<Rightarrow> Some (d # ds)
      | _ \<Rightarrow> None)"

fun as_opt_dict_list :: "json \<Rightarrow> py_dict list option option" where
  "as_opt_dict_list JNull = Some None"
| "as_opt_dict_list (JArray js) = map_option Some (as_dict_list js)"
| "as_opt_dict_list j = None"

fun conforming_list :: "'a pyobj list \<Rightarrow> 'a list option" where
  "conforming_list [] = Some []"
| "conforming_list (Nonconforming # xs) = None"
| "conforming_list (Conforming x # xs) = map_option ((#) x) (conforming_list xs)"

text \<open>
  \<open>datetime.fromisoformat(v)\<close>: \<open>TypeError\<close> when \<open>v\<close> is not a string,
  \<open>ValueError\<close> when the string is not a date the parser accepts. The parser itself
  is the library's; it is the argument \<open>fromiso\<close>, with \<open>None\<close> for a rejected
  string.
\<close>

fun parse_timestamp :: "(string \<Rightarrow> datetime option) \<Rightarrow> json \<Rightarrow> py_exc + datetime" where
  "parse_timestamp fromiso (JString s) =
     (case fromiso s of None \<Rightarrow> Inl (Exc ValueError s) | Some d \<Rightarrow> Inr d)"
| "parse_timestamp fromiso j = Inl (Exc TypeError ''fromisoformat: argument must be str'')"

definition ConversationMessage_from_dict ::
  "(string \<Rightarrow> datetime option) \<Rightarrow> json \<Rightarrow> py_exc + ConversationMessage pyobj" where
  "ConversationMessage_from_dict fromiso data =
     bind_exc (getitem data ''role'') (\<lambda>r.
     bind_exc (getitem data ''content'') (\<lambda>c.
     bind_exc (getitem data ''timestamp'') (\<lambda>t.
     bind_exc (parse_timestamp fromiso t) (\<lambda>ts.
     bind_exc (get_default data ''metadata'' (JObject [])) (\<lambda>md.
     bind_exc (get_default data ''tool_calls'' JNull) (\<lambda>tc.
       Inr (case (as_str r, as_str c, as_dict md, as_opt_dict_list tc) of
              (Some r', Some c', Some md', Some tc') \<Rightarrow>
                Conforming \<lparr> role = r', content = c',
                             ConversationMessage.timestamp = ts,
                             ConversationMessage.metadata = md', tool_calls = tc' \<rparr>
            | _ \<Rightarrow> Nonconforming)))))))"

definition ToolExecution_from_dict ::
  "(string \<Rightarrow> datetime option) \<Rightarrow> json \<Rightarrow> py_exc + ToolExecution pyobj" where
  "ToolExecution_from_dict fromiso data =
     bind_exc (getitem data ''tool_name'') (\<lambda>n.
     bind_exc (getitem data ''arguments'') (\<lambda>a.
     bind_exc (getitem data ''result'') (\<lambda>r.
     bind_exc (getitem data ''execution_time'') (\<lambda>x.
     bind_exc (getitem data ''timestamp'') (\<lambda>t.
     bind_exc (parse_timestamp fromiso t) (\<lambda>ts.
     bind_exc (get_default data ''error'' JNull) (\<lambda>e.
       Inr (case (as_str n, as_dict a, as_str r, as_num x, as_opt_str e) of
              (Some n', Some a', Some r', Some x', Some e') \<Rightarrow>
                Conforming \<lparr> tool_name = n', arguments = a', result = r',
                             execution_time = x', ToolExecution.timestamp = ts,
                             error = e' \<rparr>
            | _ \<Rightarrow> Nonconforming))))))))"

definition SessionState_from_dict ::
  "(string \<Rightarrow> datetime option) \<Rightarrow> json \<Rightarrow> py_exc + SessionState pyobj" where
  "SessionState_from_dict fromiso data =
     bind_exc (getitem data ''session_id'') (\<lambda>sid.
     bind_exc (getitem data ''created_at'') (\<lambda>ca.
     bind_exc (parse_timestamp fromiso ca) (\<lambda>created.
     bind_exc (getitem data ''updated_at'') (\<lambda>ua.
     bind_exc (parse_timestamp fromiso ua) (\<lambda>updated.
     bind_exc (get_default data ''messages'' (JArray [])) (\<lambda>ms.
     bind_exc (py_iter ms) (\<lambda>msg_items.
     bind_exc (map_exc (ConversationMessage_from_dict fromiso) msg_items) (\<lambda>msgs.
     bind_exc (get_default data ''tool_executions'' (JArray [])) (\<lambda>ts.
     bind_exc (py_iter ts) (\<lambda>tool_items.
     bind_exc (map_exc (ToolExecution_from_dict fromiso) tool_items) (\<lambda>tools.
     bind_exc (get_default data ''current_agent'' (JString ''react'')) (\<lambda>ag.
     bind_exc (get_default data ''current_model'' (JString ''claude-sonnet-4'')) (\<lambda>mo.
     bind_exc (get_default data ''metadata'' (JObject [])) (\<lambda>md.
       Inr (case (as_str sid, conforming_list msgs, conforming_list tools,
                  as_str ag, as_str mo, as_dict md) of
              (Some sid', Some msgs', Some tools', Some ag', Some mo', Some md') \<Rightarrow>
                Conforming \<lparr> session_id = sid', created_at = created, updated_at = updated,
                             messages = msgs', tool_executions = tools',
                             current_agent = ag', current_model = mo',
                             SessionState.metadata = md' \<rparr>
            | _ \<Rightarrow> Nonconforming)))))))))))))))"

section \<open>state/persistence.py\<close>

subsection \<open>Files\<close>

text \<open>
  A file holds bytes. They are kept as what reading and \<open>json.load\<close> make of them:
  the JSON value the text parses to; plain text that \<open>json.load\<close> rejects with
  \<open>JSONDecodeError\<close>; or content on which reading or parsing raises an exception of
  another class, such as \<open>UnicodeDecodeError\<close> for bytes that are not UTF-8,
  \<open>RecursionError\<close> for nesting beyond the interpreter's limit, or \<open>ValueError\<close> for
  an integer literal beyond the digit limit. \<open>json.dump\<close> of a value writes text that
  parses to that value.

  A path is a string. It names nothing, a file, a directory, or a place where
  \<open>open\<close> raises an exception of a given class: \<open>NotADirectoryError\<close> for a path that
  runs through a regular file, \<open>PermissionError\<close> for a file the process may not open,
  \<open>OSError\<close> for a name that is too long. A path that holds a NUL character is
  refused by \<open>open\<close> itself with \<open>ValueError\<close>, whatever the file system holds.
  Creating the parent directories is not modelled.
\<close>

datatype file_content = Json_doc json | Plain string | Unreadable exc_class

datatype node = File file_content | Dir | Open_raises exc_class

type_synonym filesystem = "string \<Rightarrow> node option"

definition has_nul :: "string \<Rightarrow> bool" where
  "has_nul path = (CHR 0x00 \<in> set path)"

text \<open>\<open>open(path, "r", encoding="utf-8")\<close>: the file's content, or the exception
  \<open>open\<close> raises.\<close>

definition open_read :: "filesystem \<Rightarrow> string \<Rightarrow> py_exc + file_content" where
  "open_read fs path =
     (if has_nul path then Inl (Exc ValueError ''embedded null byte'')
      else (case fs path of
              None \<Rightarrow> Inl (Exc FileNotFoundError path)
            | Some Dir \<Rightarrow> Inl (Exc IsADirectoryError path)
            | Some (Open_raises c) \<Rightarrow> Inl (Exc c path)
            | Some (File c) \<Rightarrow> Inr c))"

text \<open>\<open>json.load(f)\<close>: reading the text and parsing it.\<close>

fun json_load :: "file_content \<Rightarrow> py_exc + json" where
  "json_load (Json_doc j) = Inr j"
| "json_load (Plain t) = Inl (Exc JSONDecodeError t)"
| "json_load (Unreadable c) = Inl (Exc c [])"

text \<open>\<open>open(path, "w")\<close>, writing the content and closing the file.\<close>

definition write_file :: "filesystem \<Rightarrow> string \<Rightarrow> file_content \<Rightarrow> py_exc + (string \<times> filesystem)" where
  "write_file fs path c =
     (if has_nul path then Inl (Exc ValueError ''embedded null byte'')
      else (case fs path of
              Some Dir \<Rightarrow> Inl (Exc IsADirectoryError path)
            | Some (Open_raises e) \<Rightarrow> Inl (Exc e path)
            | _ \<Rightarrow> Inr (path, fs(path \<mapsto> File c))))"

subsection \<open>Saving and loading\<close>

definition endswith :: "string \<Rightarrow> string \<Rightarrow> bool" where
  "endswith s suf =
     (length suf \<le> length s \<and> drop (length s - length suf) s = suf)"

text \<open>
  \<open>save_session(session_state, path)\<close> with the history directory of the persistence
  object. \<open>if path\<close> holds for a path that is given and not empty. The result is the
  path written and the file system after the write.
\<close>

definition save_session ::
  "string \<Rightarrow> filesystem \<Rightarrow> SessionState \<Rightarrow> string option \<Rightarrow> py_exc + (string \<times> filesystem)" where
  "save_session history_dir fs state path =
     (let save_path =
            (if path \<noteq> None \<and> path \<noteq> Some []
             then the path
             else (let timestamp = strftime_compact (created_at state);
                       filename = ''session_'' @ take 8 (session_id state)
                                    @ ''_'' @ timestamp @ ''.json''
                   in history_dir @ ''/'' @ filename))
      in write_file fs save_path (Json_doc (SessionState_to_dict state)))"

text \<open>
  \<open>load_session(path)\<close>: \<open>FileNotFoundError\<close>, \<open>JSONDecodeError\<close> and \<open>KeyError\<close>
  from the body are caught and \<open>None\<close> is returned; every other exception leaves the
  method. The message printed on the way is not modelled.
\<close>

definition load_session ::
  "(string \<Rightarrow> datetime option) \<Rightarrow> filesystem \<Rightarrow> string
     \<Rightarrow> py_exc + SessionState pyobj option" where
  "load_session fromiso fs path =
     (case bind_exc (open_read fs path) (\<lambda>f.
           bind_exc (json_load f) (\<lambda>data.
             SessionState_from_dict fromiso data)) of
        Inr s \<Rightarrow> Inr (Some s)
      | Inl e \<Rightarrow>
          if exc_class_of e = FileNotFoundError \<or> exc_class_of e = JSONDecodeError
             \<or> exc_class_of e = KeyError
          then Inr None
          else Inl e)"

definition auto_save ::
  "string \<Rightarrow> filesystem \<Rightarrow> SessionState \<Rightarrow> py_exc + (string \<times> filesystem) option" where
  "auto_save history_dir fs state =
     (if messages state = [] then Inr None
      else bind_exc (save_session history_dir fs state None) (\<lambda>r. Inr (Some r)))"

subsection \<open>Export\<close>

text \<open>\<open>sep.join(lines)\<close>.\<close>

fun py_join :: "string \<Rightarrow> string list \<Rightarrow> string" where
  "py_join sep [] = []"
| "py_join sep [x] = x"
| "py_join sep (x # y # ys) = x @ sep @ py_join sep (y # ys)"

definition newline :: string where
  "newline = [CHR 0x0A]"

text \<open>\<open>f"{x:.2f}"\<close>: two decimals, rounded to nearest with ties to even.\<close>

definition round_half_even :: "rat \<Rightarrow> int" where
  "round_half_even r =
     (let f = \<lfloor>r\<rfloor>; d = r - of_int f
      in if d < 1 / 2 then f
         else if 1 / 2 < d then f + 1
         else if even f then f else f + 1)"

definition fmt_2f :: "rat \<Rightarrow> string" where
  "fmt_2f r =
     (let n = nat (round_half_even (\<bar>r\<bar> * 100))
      in (if r < 0 then ''-'' else []) @ str_nat (n div 100) @ ''.'' @ zpad 2 (n mod 100))"

text \<open>The markers of the section headings, as the bytes of the source file.\<close>

definition user_marker :: string where
  "user_marker = [CHR 0xC3, CHR 0xB0, CHR 0xC5, CHR 0xB8, CHR 0xE2, CHR 0x80, CHR 0x98,
                  CHR 0xC2, CHR 0xA4]"

definition agent_marker :: string where
  "agent_marker = [CHR 0xC3, CHR 0xB0, CHR 0xC5, CHR 0xB8, CHR 0xC2, CHR 0xA4, CHR 0xE2,
                   CHR 0x80, CHR 0x93]"

definition system_marker :: string where
  "system_marker = [CHR 0xC3, CHR 0xB0, CHR 0xC5, CHR 0xB8, CHR 0xE2, CHR 0x80, CHR 0x9D,
                    CHR 0xC2, CHR 0xA7]"

definition tools_marker :: string where
  "tools_marker = [CHR 0xC3, CHR 0xB0, CHR 0xC5, CHR 0xB8, CHR 0xE2, CHR 0x80, CHR 0xBA,
                   CHR 0xC2, CHR 0xA0, CHR 0xC3, CHR 0xAF, CHR 0xC2, CHR 0xB8]"

text \<open>The lines \<open>_format_markdown\<close> appends: first the header.\<close>

definition markdown_header :: "SessionState \<Rightarrow> string list" where
  "markdown_header state =
     [''# Orbiton Agent Conversation'',
      '''',
      ''**Session ID:** '' @ session_id state,
      ''**Created:** '' @ strftime_date_time (created_at state),
      ''**Updated:** '' @ strftime_date_time (updated_at state),
      ''**Agent:** '' @ current_agent state,
      ''**Model:** '' @ current_model state,
      '''',
      ''---'',
      '''']"

text \<open>The lines of one message: the chain of \<open>if\<close>/\<open>elif\<close> has no \<open>else\<close>.\<close>

definition markdown_message :: "ConversationMessage \<Rightarrow> string list" where
  "markdown_message msg =
     (let timestamp = strftime_time (ConversationMessage.timestamp msg)
      in if role msg = ''user''
         then [''## '' @ user_marker @ '' User ['' @ timestamp @ '']'', '''', content msg, '''']
         else if role msg = ''agent''
         then [''## '' @ agent_marker @ '' Agent ['' @ timestamp @ '']'', '''', content msg, '''']
         else if role msg = ''system''
         then [''## '' @ system_marker @ '' System ['' @ timestamp @ '']'', '''', content msg, '''']
         else [])"

text \<open>The lines of one tool execution. \<open>json.dumps(tool.arguments, indent=2)\<close> is the
  library's printer, the argument \<open>dumps\<close>. \<open>if tool.error\<close> holds for an error text
  that is given and not empty.\<close>

definition markdown_tool :: "(json \<Rightarrow> string) \<Rightarrow> ToolExecution \<Rightarrow> string list" where
  "markdown_tool dumps tool =
     (let timestamp = strftime_time (ToolExecution.timestamp tool)
      in [''### '' @ tool_name tool @ '' ['' @ timestamp @ '']'',
          '''',
          ''**Arguments:**'',
          ''```json'',
          dumps (JObject (arguments tool)),
          ''```'',
          '''',
          ''**Result:** '' @ slice_to 200 (result tool) @ ''...'',
          '''',
          ''**Execution Time:** '' @ fmt_2f (execution_time tool) @ ''s'']
         @ (if error tool \<noteq> None \<and> error tool \<noteq> Some []
            then ['''', ''**Error:** '' @ the (error tool)]
            else [])
         @ [''''])"

definition markdown_tools :: "(json \<Rightarrow> string) \<Rightarrow> SessionState \<Rightarrow> string list" where
  "markdown_tools dumps state =
     (if tool_executions state \<noteq> []
      then [''---'',
            '''',
            ''## '' @ tools_marker @ '' Tool Executions (''
               @ str_nat (length (tool_executions state)) @ '')'',
            '''']
           @ concat (map (markdown_tool dumps) (tool_executions state))
      else [])"

definition markdown_lines :: "(json \<Rightarrow> string) \<Rightarrow> SessionState \<Rightarrow> string list" where
  "markdown_lines dumps state =
     markdown_header state
       @ concat (map markdown_message (messages state))
       @ markdown_tools dumps state"

definition format_markdown :: "(json \<Rightarrow> string) \<Rightarrow> SessionState \<Rightarrow> string" where
  "format_markdown dumps state = py_join newline (markdown_lines dumps state)"

text \<open>\<open>_format_text\<close>. \<open>str.upper\<close> is the library's, the argument \<open>upper\<close>.\<close>

definition role_display :: "(string \<Rightarrow> string) \<Rightarrow> string \<Rightarrow> string" where
  "role_display upper r =
     (case map_of [(''user'', ''USER''), (''agent'', ''AGENT''), (''system'', ''SYSTEM'')] r of
        Some d \<Rightarrow> d
      | None \<Rightarrow> upper r)"

definition text_message :: "(string \<Rightarrow> string) \<Rightarrow> ConversationMessage \<Rightarrow> string list" where
  "text_message upper msg =
     (let timestamp = strftime_time (ConversationMessage.timestamp msg)
      in [''['' @ timestamp @ ''] '' @ role_display upper (role msg) @ '':'',
          content msg,
          '''',
          replicate 80 (CHR ''-''),
          ''''])"

definition text_lines :: "(string \<Rightarrow> string) \<Rightarrow> SessionState \<Rightarrow> string list" where
  "text_lines upper state =
     [replicate 80 (CHR ''=''),
      ''ORBITON AGENT CONVERSATION'',
      replicate 80 (CHR ''=''),
      ''Session ID: '' @ session_id state,
      ''Created: '' @ strftime_date_time (created_at state),
      ''Updated: '' @ strftime_date_time (updated_at state),
      ''Agent: '' @ current_agent state,
      ''Model: '' @ current_model state,
      replicate 80 (CHR ''=''),
      '''']
     @ concat (map (text_message upper) (messages state))"

definition format_text :: "(string \<Rightarrow> string) \<Rightarrow> SessionState \<Rightarrow> string" where
  "format_text upper state = py_join newline (text_lines upper state)"

text \<open>
  \<open>export_session(session_state, filename, format="md")\<close>. The argument
  \<open>format_arg\<close> is \<open>None\<close> when the caller leaves the format out. A file name
  without a slash or a backslash is put under the current directory \<open>cwd\<close>.
\<close>

definition resolve_export_path :: "string \<Rightarrow> string \<Rightarrow> string" where
  "resolve_export_path cwd filename =
     (if CHR ''/'' \<in> set filename \<or> CHR 0x5C \<in> set filename then filename
      else cwd @ ''/'' @ filename)"

definition export_session ::
  "(json \<Rightarrow> string) \<Rightarrow> (string \<Rightarrow> string) \<Rightarrow> string \<Rightarrow> filesystem
     \<Rightarrow> SessionState \<Rightarrow> string \<Rightarrow> string option \<Rightarrow> py_exc + (string \<times> filesystem)" where
  "export_session dumps upper cwd fs state filename_arg format_arg =
     (let format = (case format_arg of None \<Rightarrow> ''md'' | Some f \<Rightarrow> f);
          filename =
            (if format = ''md'' \<and> \<not> endswith filename_arg ''.md'' then filename_arg @ ''.md''
             else if format = ''json'' \<and> \<not> endswith filename_arg ''.json''
             then filename_arg @ ''.json''
             else if format = ''txt'' \<and> \<not> endswith filename_arg ''.txt''
             then filename_arg @ ''.txt''
             else filename_arg);
          export_path = resolve_export_path cwd filename;
          content =
            (if format = ''md'' then Plain (format_markdown dumps state)
             else if format = ''json'' then Json_doc (SessionState_to_dict state)
             else Plain (format_text upper state))
      in write_file fs export_path content)"

section \<open>console/commands.py: the save command\<close>

text \<open>
  \<open>_cmd_save(args)\<close> computes the file name and the format it passes to
  \<open>export_session\<close>: the arguments joined by spaces, or a default name from the clock
  reading \<open>now\<close>; \<open>.md\<close> is appended when the name ends in none of the three
  extensions; the format follows the extension.
\<close>

definition cmd_save_filename :: "datetime \<Rightarrow> string list \<Rightarrow> string" where
  "cmd_save_filename now args =
     (let filename =
            (if args \<noteq> [] then py_join '' '' args
             else ''conversation_'' @ strftime_compact now @ ''.md'')
      in if \<not> (endswith filename ''.md'' \<or> endswith filename ''.json''
               \<or> endswith filename ''.txt'')
         then filename @ ''.md''
         else filename)"

definition cmd_save_format :: "string \<Rightarrow> string" where
  "cmd_save_format filename =
     (if endswith filename ''.json'' then ''json''
      else if endswith filename ''.txt'' then ''txt''
      else ''md'')"

definition cmd_save ::
  "(json \<Rightarrow> string) \<Rightarrow> (string \<Rightarrow> string) \<Rightarrow> string \<Rightarrow> filesystem \<Rightarrow> datetime
     \<Rightarrow> SessionState \<Rightarrow> string list \<Rightarrow> py_exc + (string \<times> filesystem)" where
  "cmd_save dumps upper cwd fs now state args =
     (let filename = cmd_save_filename now args;
          format_type = cmd_save_format filename
      in export_session dumps upper cwd fs state filename (Some format_type))"

section \<open>agents/factory.py: the agent session\<close>

text \<open>
  The agent is external: \<open>await self.agent.run(user_input)\<close> either returns the
  response or raises. A session holds the two flags, the debug switch and the lines given
  to the logger; \<open>agent_runs\<close> records the inputs \<open>agent.run\<close> was called with, and
  \<open>loop_running\<close> is whether the session's event loop (\<open>self._event_loop\<close>) is
  running.
\<close>

datatype agent_outcome = Returns string | Raises py_exc

record AgentSession =
  executing :: bool
  interrupted :: bool
  enable_debug_logging :: bool
  logged :: "string list"
  agent_runs :: "string list"
  loop_running :: bool

definition rule80 :: string where
  "rule80 = replicate 80 (CHR ''='')"

text \<open>
  \<open>execute_async\<close> up to the point where it awaits the agent: the guard, the two
  assignments, the log of the input, and the call of \<open>agent.run\<close>.
\<close>

definition execute_async_start :: "string \<Rightarrow> AgentSession \<Rightarrow> py_exc + AgentSession" where
  "execute_async_start user_input s =
     (if executing s then Inl (Exc RuntimeError ''Agent is already executing'')
      else (let s1 = s \<lparr> executing := True, interrupted := False \<rparr>;
                s2 = (if enable_debug_logging s1
                      then s1 \<lparr> logged := logged s1
                                  @ [rule80, ''AGENT INPUT:'', ''  User Input: '' @ user_input,
                                     rule80] \<rparr>
                      else s1)
            in Inr (s2 \<lparr> agent_runs := agent_runs s2 @ [user_input] \<rparr>)))"

text \<open>
  \<open>execute_async\<close> from the point where the awaited call ends: the log of the
  response and the \<open>return\<close>, or one of the two \<open>except\<close> clauses, or neither for an
  exception that is no \<open>Exception\<close>; the \<open>finally\<close> clause runs in every case.
\<close>

definition execute_async_finish ::
  "agent_outcome \<Rightarrow> AgentSession \<Rightarrow> (py_exc + string) \<times> AgentSession" where
  "execute_async_finish outcome s =
     (case outcome of
        Returns response \<Rightarrow>
          (let s1 = (if enable_debug_logging s
                     then s \<lparr> logged := logged s
                                @ [rule80, ''AGENT OUTPUT:'',
                                   ''  Response: '' @ slice_to 200 response
                                      @ (if length response > 200 then ''...'' else []),
                                   ''  Length: '' @ str_nat (length response) @ '' chars'',
                                   rule80] \<rparr>
                     else s)
           in (Inr response, s1 \<lparr> executing := False \<rparr>))
      | Raises e \<Rightarrow>
          if exc_class_of e = KeyboardInterrupt
          then (Inl e, s \<lparr> interrupted := True, executing := False \<rparr>)
          else if isinstance_Exception (exc_class_of e)
          then (let s1 = (if enable_debug_logging s
                          then s \<lparr> logged := logged s
                                     @ [''Agent execution failed: '' @ str_exc e] \<rparr>
                          else s)
                in (Inl (Exc Exception (''Agent execution failed: '' @ str_exc e)),
                    s1 \<lparr> executing := False \<rparr>))
          else (Inl e, s \<lparr> executing := False \<rparr>))"

definition execute_async ::
  "(string \<Rightarrow> agent_outcome) \<Rightarrow> string \<Rightarrow> AgentSession
     \<Rightarrow> (py_exc + string) \<times> AgentSession" where
  "execute_async agent user_input s =
     (case execute_async_start user_input s of
        Inl e \<Rightarrow> (Inl e, s)
      | Inr s1 \<Rightarrow> execute_async_finish (agent user_input) s1)"

text \<open>
  \<open>execute\<close> is \<open>self._event_loop.run_until_complete(self.execute_async(user_input))\<close>.
  \<open>run_until_complete\<close> first refuses a loop that is running, with
  \<open>RuntimeError("This event loop is already running")\<close>: the coroutine is then never
  started and its guard never reached. Otherwise the loop runs the coroutine up to the
  point where it awaits the agent.
\<close>

definition execute_start :: "string \<Rightarrow> AgentSession \<Rightarrow> py_exc + AgentSession" where
  "execute_start user_input s =
     (if loop_running s then Inl (Exc RuntimeError ''This event loop is already running'')
      else execute_async_start user_input (s \<lparr> loop_running := True \<rparr>))"

text \<open>
  While the coroutine awaits the agent the loop waits for events. Either the awaited
  call ends and the coroutine goes on, or a \<open>KeyboardInterrupt\<close> is raised in the loop
  itself (the interrupt signal arrives while the loop waits): it leaves
  \<open>run_until_complete\<close> at once, the loop stops, and the coroutine stays suspended, so
  neither its \<open>except\<close> clauses nor its \<open>finally\<close> run. A \<open>KeyboardInterrupt\<close>
  raised inside the coroutine is an outcome of the agent call.
\<close>

datatype loop_wait = Completed | Interrupted_in_loop

definition execute ::
  "(string \<Rightarrow> agent_outcome) \<Rightarrow> loop_wait \<Rightarrow> string \<Rightarrow> AgentSession
     \<Rightarrow> (py_exc + string) \<times> AgentSession" where
  "execute agent wait user_input s =
     (case execute_start user_input s of
        Inl e \<Rightarrow> (Inl e, s)
      | Inr s1 \<Rightarrow>
          (case wait of
             Interrupted_in_loop \<Rightarrow>
               (Inl (Exc KeyboardInterrupt []), s1 \<lparr> loop_running := False \<rparr>)
           | Completed \<Rightarrow>
               (case execute_async_finish (agent user_input) s1 of
                  (r, s2) \<Rightarrow> (r, s2 \<lparr> loop_running := False \<rparr>))))"

definition interrupt :: "AgentSession \<Rightarrow> AgentSession" where
  "interrupt s = (if executing s then s \<lparr> interrupted := True \<rparr> else s)"

section \<open>Sequences of calls and sample data\<close>

text \<open>The mutators of the session manager, as values, and the states a sequence of
  them goes through.\<close>

datatype mutation =
    Add_message string string "py_dict option" "py_dict list option"
  | Add_tool_execution string py_dict string rat "string option"
  | Clear_history
  | Update_agent string
  | Update_model string

fun apply_mutation :: "clock \<Rightarrow> mutation \<Rightarrow> SessionManager \<Rightarrow> SessionManager" where
  "apply_mutation clk (Add_message r c md tc) m = add_message clk r c md tc m"
| "apply_mutation clk (Add_tool_execution n a r t e) m = add_tool_execution clk n a r t e m"
| "apply_mutation clk Clear_history m = clear_history clk m"
| "apply_mutation clk (Update_agent a) m = update_agent clk a m"
| "apply_mutation clk (Update_model mo) m = update_model clk mo m"

fun run_trace :: "clock \<Rightarrow> mutation list \<Rightarrow> SessionManager \<Rightarrow> SessionManager list" where
  "run_trace clk [] m = []"
| "run_trace clk (x # xs) m =
     apply_mutation clk x m # run_trace clk xs (apply_mutation clk x m)"

fun run_mutations :: "clock \<Rightarrow> mutation list \<Rightarrow> SessionManager \<Rightarrow> SessionManager" where
  "run_mutations clk [] m = m"
| "run_mutations clk (x # xs) m = run_mutations clk xs (apply_mutation clk x m)"

text \<open>A call \<open>add_message(role, content)\<close> with the two optional arguments left out.\<close>

definition add_call :: "string \<times> string \<Rightarrow> mutation" where
  "add_call rc = Add_message (fst rc) (snd rc) None None"

definition updated :: "SessionManager \<Rightarrow> datetime" where
  "updated m = updated_at (session_state m)"

definition created :: "SessionManager \<Rightarrow> datetime" where
  "created m = created_at (session_state m)"

text \<open>A clock that advances by one microsecond per reading.\<close>

definition clk0 :: clock where
  "clk0 i = Datetime 2025 1 15 10 30 0 i"

definition fresh_manager :: SessionManager where
  "fresh_manager =
     init_manager clk0 0 ''3f2b8c1e-5d4a-4b6f-9c1d-2e7a8b9c0d1e'' ''react'' ''claude-sonnet-4''"

definition hello_manager :: SessionManager where
  "hello_manager =
     add_message clk0 ''agent'' ''Hi there'' None None
       (add_message clk0 ''user'' ''Hello'' None None fresh_manager)"

definition tool_role_manager :: SessionManager where
  "tool_role_manager =
     add_message clk0 ''agent'' ''Hi there'' None None
       (add_message clk0 ''tool'' ''42'' None None
          (add_message clk0 ''user'' ''Hello'' None None fresh_manager))"

definition idle_session :: AgentSession where
  "idle_session =
     \<lparr> executing = False, interrupted = False, enable_debug_logging = False,
       logged = [], agent_runs = [], loop_running = False \<rparr>"

text \<open>A parser for the two layouts \<open>isoformat\<close> writes, to run the loader on sample
  documents.\<close>

definition digit_of :: "char \<Rightarrow> nat option" where
  "digit_of c =
     map_of [(CHR ''0'', 0), (CHR ''1'', 1), (CHR ''2'', 2), (CHR ''3'', 3), (CHR ''4'', 4),
             (CHR ''5'', 5), (CHR ''6'', 6), (CHR ''7'', 7), (CHR ''8'', 8), (CHR ''9'', 9)] c"

fun parse_nat_acc :: "nat \<Rightarrow> string \<Rightarrow> nat option" where
  "parse_nat_acc acc [] = Some acc"
| "parse_nat_acc acc (c # cs) =
     (case digit_of c of None \<Rightarrow> None | Some d \<Rightarrow> parse_nat_acc (acc * 10 + d) cs)"

definition parse_nat :: "string \<Rightarrow> nat option" where
  "parse_nat s = (if s = [] then None else parse_nat_acc 0 s)"

definition fromisoformat_naive :: "string \<Rightarrow> datetime option" where
  "fromisoformat_naive s =
     (if (length s = 19 \<or> (length s = 26 \<and> s ! 19 = CHR ''.''))
         \<and> s ! 4 = CHR ''-'' \<and> s ! 7 = CHR ''-'' \<and> s ! 10 = CHR ''T''
         \<and> s ! 13 = CHR '':'' \<and> s ! 16 = CHR '':''
      then (case (parse_nat (take 4 s), parse_nat (take 2 (drop 5 s)),
                  parse_nat (take 2 (drop 8 s)), parse_nat (take 2 (drop 11 s)),
                  parse_nat (take 2 (drop 14 s)), parse_nat (take 2 (drop 17 s)),
                  (if length s = 19 then Some 0 else parse_nat (drop 20 s))) of
              (Some y, Some mo, Some d, Some h, Some mi, Some sec, Some us) \<Rightarrow>
                if 1 \<le> y \<and> 1 \<le> mo \<and> mo \<le> 12 \<and> 1 \<le> d \<and> d \<le> 31
                   \<and> h < 24 \<and> mi < 60 \<and> sec < 60
                then Some (Datetime y mo d h mi sec us)
                else None
            | _ \<Rightarrow> None)
      else None)"

text \<open>The timestamps a session state holds.\<close>

definition timestamps_of :: "SessionState \<Rightarrow> datetime list" where
  "timestamps_of s =
     created_at s # updated_at s
       # map ConversationMessage.timestamp (messages s)
       @ map ToolExecution.timestamp (tool_executions s)"

text \<open>
  A required key is absent from a document: the document is an object without
  \<open>session_id\<close>, \<open>created_at\<close> or \<open>updated_at\<close>, or one of its messages is an object
  without \<open>role\<close>, \<open>content\<close> or \<open>timestamp\<close>, or one of its tool executions is an
  object without \<open>tool_name\<close>, \<open>arguments\<close>, \<open>result\<close>, \<open>execution_time\<close> or
  \<open>timestamp\<close>.
\<close>

fun lacks_key :: "json \<Rightarrow> string \<Rightarrow> bool" where
  "lacks_key (JObject kvs) k = (map_of kvs k = None)"
| "lacks_key j k = False"

fun array_items :: "json \<Rightarrow> string \<Rightarrow> json list" where
  "array_items (JObject kvs) k = (case map_of kvs k of Some (JArray xs) \<Rightarrow> xs | _ \<Rightarrow> [])"
| "array_items j k = []"

definition required_key_absent :: "json \<Rightarrow> bool" where
  "required_key_absent data =
     (list_ex (lacks_key data) [''session_id'', ''created_at'', ''updated_at'']
      \<or> list_ex (\<lambda>msg. list_ex (lacks_key msg) [''role'', ''content'', ''timestamp''])
           (array_items data ''messages'')
      \<or> list_ex (\<lambda>tool. list_ex (lacks_key tool)
             [''tool_name'', ''arguments'', ''result'', ''execution_time'', ''timestamp''])
           (array_items data ''tool_executions''))"

definition half_document :: json where
  "half_document =
     JObject [(''session_id'', JString ''3f2b8c1e''), (''created_at'', JString ''yesterday'')]"

text \<open>A session with two messages and one tool execution, and where it is saved.\<close>

definition sample_state :: SessionState where
  "sample_state =
     session_state
       (add_tool_execution clk0 ''search_web'' [(''query'', JString ''Python programming'')]
          ''Found 10 results'' (3 / 2) None hello_manager)"

definition sample_path :: string where
  "sample_path = ''/home/user/.orbiton/history/session_3f2b8c1e_20250115_103000.json''"

text \<open>The exception classes deserialisation can raise.\<close>

definition raised_classes :: "exc_class list" where
  "raised_classes = [KeyError, TypeError, ValueError, AttributeError]"


text \<open>The exception classes the \<open>except\<close> clause of \<open>load_session\<close> names.\<close>

definition caught_on_load :: "exc_class \<Rightarrow> bool" where
  "caught_on_load c = (c = FileNotFoundError \<or> c = JSONDecodeError \<or> c = KeyError)"

section \<open>The execution gate\<close>




text \<open>
  C3, as stated, fails when the agent call ends with an exception that is neither a
  \<open>KeyboardInterrupt\<close> nor an \<open>Exception\<close>: an asyncio \<open>CancelledError\<close> leaves
  \<open>execute_async\<close> as it is, unwrapped, and \<open>interrupted\<close> stays false.
\<close>

theorem execute_async_cancelled_counterexample:
  "\<not> executing idle_session
   \<and> execute_async (\<lambda>x. Raises (Exc CancelledError [])) ''A'' idle_session
       = (Inl (Exc CancelledError []), idle_session \<lparr> agent_runs := [''A''] \<rparr>)
   \<and> \<not> interrupted (snd (execute_async (\<lambda>x. Raises (Exc CancelledError [])) ''A'' idle_session))"
  by (simp add: execute_async_def execute_async_start_def execute_async_finish_def idle_session_def)

text \<open>On a loop that is not running, \<open>execute\<close> whose wait is not interrupted is
  \<open>execute_async\<close>.\<close>

lemma execute_completed:
  assumes "\<not> loop_running s"
  shows "execute agent Completed user_input s = execute_async agent user_input s"
proof (cases "executing s")
  case True
  with assms show ?thesis
    by (simp add: execute_def execute_start_def execute_async_def execute_async_start_def)
next
  case False
  obtain r s2 where f: "execute_async agent user_input s = (r, s2)"
    by (cases "execute_async agent user_input s")
  have "loop_running s2 = loop_running s"
    using f False
    by (cases "agent user_input")
       (auto simp add: execute_async_def execute_async_start_def execute_async_finish_def
          Let_def split: if_splits)
  with assms have l: "s2 \<lparr> loop_running := False \<rparr> = s2" by simp
  have "execute agent Completed user_input s = (r, s2 \<lparr> loop_running := False \<rparr>)"
    using f False assms
    by (cases "agent user_input")
       (auto simp add: execute_def execute_start_def execute_async_def
          execute_async_start_def execute_async_finish_def Let_def split: if_splits)
  with l f show ?thesis by simp
qed

text \<open>
  C3, amended. A call that starts with \<open>executing\<close> false, and whose awaited agent
  call ends inside the coroutine, ends with \<open>executing\<close> false whatever the agent call
  does. A returned response is returned. A \<open>KeyboardInterrupt\<close> from the agent call
  sets \<open>interrupted\<close> and is raised again. An exception of a class deriving from
  \<open>Exception\<close> is replaced by a new \<open>Exception\<close> whose text is
  \<open>Agent execution failed:\<close> followed by the text of the original. Any other exception
  leaves the call unchanged, with \<open>interrupted\<close> false. This holds of \<open>execute_async\<close>,
  and of \<open>execute\<close> on a loop that is not running when the wait for the agent is not
  itself interrupted.
\<close>

theorem execute_async_return_paths:
  assumes "\<not> executing s"
  shows "\<not> executing (snd (execute_async agent user_input s))
    \<and> (\<forall>response. agent user_input = Returns response \<longrightarrow>
          fst (execute_async agent user_input s) = Inr response
          \<and> \<not> interrupted (snd (execute_async agent user_input s)))
    \<and> (\<forall>msg. agent user_input = Raises (Exc KeyboardInterrupt msg) \<longrightarrow>
          fst (execute_async agent user_input s) = Inl (Exc KeyboardInterrupt msg)
          \<and> interrupted (snd (execute_async agent user_input s)))
    \<and> (\<forall>c msg. agent user_input = Raises (Exc c msg) \<and> isinstance_Exception c \<longrightarrow>
          fst (execute_async agent user_input s)
            = Inl (Exc Exception (''Agent execution failed: '' @ msg))
          \<and> \<not> interrupted (snd (execute_async agent user_input s)))
    \<and> (\<forall>c msg. agent user_input = Raises (Exc c msg) \<and> c \<noteq> KeyboardInterrupt
                 \<and> \<not> isinstance_Exception c \<longrightarrow>
          fst (execute_async agent user_input s) = Inl (Exc c msg)
          \<and> \<not> interrupted (snd (execute_async agent user_input s)))
    \<and> (\<not> loop_running s \<longrightarrow>
          execute agent Completed user_input s = execute_async agent user_input s)"
proof -
  have "\<not> loop_running s \<longrightarrow>
          execute agent Completed user_input s = execute_async agent user_input s"
    by (simp add: execute_completed)
  moreover have "\<not> executing (snd (execute_async agent user_input s))
    \<and> (\<forall>response. agent user_input = Returns response \<longrightarrow>
          fst (execute_async agent user_input s) = Inr response
          \<and> \<not> interrupted (snd (execute_async agent user_input s)))
    \<and> (\<forall>msg. agent user_input = Raises (Exc KeyboardInterrupt msg) \<longrightarrow>
          fst (execute_async agent user_input s) = Inl (Exc KeyboardInterrupt msg)
          \<and> interrupted (snd (execute_async agent user_input s)))
    \<and> (\<forall>c msg. agent user_input = Raises (Exc c msg) \<and> isinstance_Exception c \<longrightarrow>
          fst (execute_async agent user_input s)
            = Inl (Exc Exception (''Agent execution failed: '' @ msg))
          \<and> \<not> interrupted (snd (execute_async agent user_input s)))
    \<and> (\<forall>c msg. agent user_input = Raises (Exc c msg) \<and> c \<noteq> KeyboardInterrupt
                 \<and> \<not> isinstance_Exception c \<longrightarrow>
          fst (execute_async agent user_input s) = Inl (Exc c msg)
          \<and> \<not> interrupted (snd (execute_async agent user_input s)))"
    using assms
    by (cases "agent user_input")
       (auto simp add: execute_async_def execute_async_start_def execute_async_finish_def
          Let_def)
  ultimately show ?thesis by blast
qed

theorem execute_async_return_paths_witness:
  "\<not> executing idle_session
   \<and> execute_async (\<lambda>x. Raises (Exc ValueError ''bad model'')) ''A'' idle_session
       = (Inl (Exc Exception ''Agent execution failed: bad model''),
          idle_session \<lparr> agent_runs := [''A''] \<rparr>)
   \<and> fst (execute_async (\<lambda>x. Raises (Exc KeyboardInterrupt [])) ''A'' idle_session)
       = Inl (Exc KeyboardInterrupt [])
   \<and> interrupted (snd (execute_async (\<lambda>x. Raises (Exc KeyboardInterrupt [])) ''A'' idle_session))
   \<and> fst (execute_async (\<lambda>x. Returns ''done'') ''A'' idle_session) = Inr ''done''
   \<and> fst (execute_async (\<lambda>x. Raises (Exc SystemExit ''0'')) ''A'' idle_session)
       = Inl (Exc SystemExit ''0'')
   \<and> \<not> interrupted (snd (execute_async (\<lambda>x. Raises (Exc SystemExit ''0'')) ''A'' idle_session))
   \<and> execute (\<lambda>x. Raises (Exc ValueError ''bad model'')) Completed ''A'' idle_session
       = (Inl (Exc Exception ''Agent execution failed: bad model''),
          idle_session \<lparr> agent_runs := [''A''] \<rparr>)"
proof -
  have i: "\<not> executing idle_session" by (simp add: idle_session_def)
  have l: "\<not> loop_running idle_session" by (simp add: idle_session_def)
  note t = execute_async_return_paths [OF i]
  have a: "fst (execute_async (\<lambda>x. Raises (Exc ValueError ''bad model'')) ''A'' idle_session)
             = Inl (Exc Exception ''Agent execution failed: bad model'')"
    using t [of "\<lambda>x. Raises (Exc ValueError ''bad model'')" "''A''"] by simp
  have b: "fst (execute_async (\<lambda>x. Raises (Exc KeyboardInterrupt [])) ''A'' idle_session)
       = Inl (Exc KeyboardInterrupt [])
     \<and> interrupted (snd (execute_async (\<lambda>x. Raises (Exc KeyboardInterrupt [])) ''A'' idle_session))"
    using t [of "\<lambda>x. Raises (Exc KeyboardInterrupt [])" "''A''"] by simp
  have c: "fst (execute_async (\<lambda>x. Returns ''done'') ''A'' idle_session) = Inr ''done''"
    using t [of "\<lambda>x. Returns ''done''" "''A''"] by simp
  have d: "snd (execute_async (\<lambda>x. Raises (Exc ValueError ''bad model'')) ''A'' idle_session)
             = idle_session \<lparr> agent_runs := [''A''] \<rparr>"
    by (simp add: execute_async_def execute_async_start_def execute_async_finish_def idle_session_def)
  have e: "fst (execute_async (\<lambda>x. Raises (Exc SystemExit ''0'')) ''A'' idle_session)
             = Inl (Exc SystemExit ''0'')
     \<and> \<not> interrupted (snd (execute_async (\<lambda>x. Raises (Exc SystemExit ''0'')) ''A'' idle_session))"
    using t [of "\<lambda>x. Raises (Exc SystemExit ''0'')" "''A''"] by simp
  have f: "execute (\<lambda>x. Raises (Exc ValueError ''bad model'')) Completed ''A'' idle_session
             = execute_async (\<lambda>x. Raises (Exc ValueError ''bad model'')) ''A'' idle_session"
    using t [of "\<lambda>x. Raises (Exc ValueError ''bad model'')" "''A''"] l by simp
  from i a b c d e f show ?thesis by (simp add: prod_eq_iff)
qed

text \<open>
  Outside C3 as amended: when the interrupt is raised in the loop while it waits, the
  coroutine is left suspended. \<open>execute\<close> ends with \<open>KeyboardInterrupt\<close>, \<open>executing\<close>
  is still true and \<open>interrupted\<close> is false.
\<close>

lemma execute_interrupted_in_loop:
  assumes "\<not> executing s" and "\<not> loop_running s"
  shows "fst (execute agent Interrupted_in_loop user_input s) = Inl (Exc KeyboardInterrupt [])
         \<and> executing (snd (execute agent Interrupted_in_loop user_input s))
         \<and> \<not> interrupted (snd (execute agent Interrupted_in_loop user_input s))
         \<and> \<not> loop_running (snd (execute agent Interrupted_in_loop user_input s))"
  using assms by (simp add: execute_def execute_start_def execute_async_start_def Let_def)

section \<open>The session store\<close>

text \<open>
  C4, as stated, fails: a role outside user, agent and system is accepted. The call
  \<open>add_message("tool", "42")\<close> on a fresh manager returns with the message appended.
\<close>

theorem add_message_invalid_role_counterexample:
  "''tool'' \<notin> {''user'', ''agent'', ''system''}
   \<and> map role (messages (session_state (add_message clk0 ''tool'' ''42'' None None fresh_manager)))
       = [''tool'']"
  by (simp add: add_message_def Let_def fresh_manager_def init_manager_def)

text \<open>
  C4, amended. For every role string, \<open>add_message\<close> appends exactly one message
  with that role, that content, the clock reading as timestamp, the metadata (empty when
  left out) and the tool calls, sets \<open>updated_at\<close> to the next clock reading, and
  changes neither the tool executions, nor \<open>created_at\<close>, nor the session id. No role
  is rejected.
\<close>

theorem add_message_any_role:
  "messages (session_state (add_message clk r c md tc m))
     = messages (session_state m)
       @ [\<lparr> role = r, content = c, ConversationMessage.timestamp = clk (ticks m),
            ConversationMessage.metadata = (case md of None \<Rightarrow> [] | Some d \<Rightarrow> d),
            tool_calls = tc \<rparr>]
   \<and> updated_at (session_state (add_message clk r c md tc m)) = clk (ticks m + 1)
   \<and> tool_executions (session_state (add_message clk r c md tc m))
       = tool_executions (session_state m)
   \<and> created_at (session_state (add_message clk r c md tc m)) = created_at (session_state m)
   \<and> session_id (session_state (add_message clk r c md tc m)) = session_id (session_state m)"
  by (simp add: add_message_def Let_def)

subsection \<open>Order of messages and of timestamps\<close>

lemma dt_le_refl: "dt_le a a"
  by (simp add: dt_le_def)

lemma dt_le_trans: "dt_le a b \<Longrightarrow> dt_le b c \<Longrightarrow> dt_le a c"
  by (auto simp add: dt_le_def)

lemma apply_mutation_created: "created (apply_mutation clk x m) = created m"
  by (cases x)
     (simp_all add: created_def add_message_def add_tool_execution_def clear_history_def
        update_agent_def update_model_def Let_def)

text \<open>Every mutator stores the last clock reading it makes.\<close>

lemma apply_mutation_updated:
  "\<exists>k. updated (apply_mutation clk x m) = clk (ticks m + k)
       \<and> ticks (apply_mutation clk x m) = ticks m + k + 1"
proof (cases x)
  case (Add_message r c md tc)
  then show ?thesis
    by (intro exI [of _ 1]) (simp add: updated_def add_message_def Let_def)
next
  case (Add_tool_execution n a r t e)
  then show ?thesis
    by (intro exI [of _ 1]) (simp add: updated_def add_tool_execution_def Let_def)
next
  case Clear_history
  then show ?thesis
    by (intro exI [of _ 0]) (simp add: updated_def clear_history_def)
next
  case (Update_agent a)
  then show ?thesis
    by (intro exI [of _ 0]) (simp add: updated_def update_agent_def)
next
  case (Update_model mo)
  then show ?thesis
    by (intro exI [of _ 0]) (simp add: updated_def update_model_def)
qed

lemma apply_mutation_step:
  assumes mono: "\<forall>i j. i \<le> j \<longrightarrow> dt_le (clk i) (clk j)"
    and past: "dt_le (updated m) (clk (ticks m))"
  shows "dt_le (updated m) (updated (apply_mutation clk x m))
         \<and> dt_le (updated (apply_mutation clk x m)) (clk (ticks (apply_mutation clk x m)))"
proof -
  obtain k where k: "updated (apply_mutation clk x m) = clk (ticks m + k)"
    "ticks (apply_mutation clk x m) = ticks m + k + 1"
    using apply_mutation_updated by blast
  have "dt_le (clk (ticks m)) (clk (ticks m + k))" using mono by simp
  with past have "dt_le (updated m) (clk (ticks m + k))" by (rule dt_le_trans)
  moreover have "dt_le (clk (ticks m + k)) (clk (ticks m + k + 1))" using mono by simp
  ultimately show ?thesis using k by simp
qed

lemma run_trace_invariant:
  assumes mono: "\<forall>i j. i \<le> j \<longrightarrow> dt_le (clk i) (clk j)"
  shows "dt_le (created m) (updated m) \<Longrightarrow> dt_le (updated m) (clk (ticks m)) \<Longrightarrow>
         list_all (\<lambda>m'. dt_le (updated m) (updated m') \<and> dt_le (created m') (updated m'))
           (run_trace clk ops m)
         \<and> sorted_wrt dt_le (map updated (run_trace clk ops m))"
proof (induction ops arbitrary: m)
  case Nil
  then show ?case by simp
next
  case (Cons x xs)
  let ?m = "apply_mutation clk x m"
  have step: "dt_le (updated m) (updated ?m)" "dt_le (updated ?m) (clk (ticks ?m))"
    using apply_mutation_step [OF mono Cons.prems(2)] by simp_all
  have cu: "dt_le (created ?m) (updated ?m)"
    using Cons.prems(1) step(1) by (simp add: apply_mutation_created dt_le_trans [of "created m"])
  have ih: "list_all (\<lambda>m'. dt_le (updated ?m) (updated m') \<and> dt_le (created m') (updated m'))
              (run_trace clk xs ?m)"
    "sorted_wrt dt_le (map updated (run_trace clk xs ?m))"
    using Cons.IH [OF cu step(2)] by simp_all
  have later: "list_all (\<lambda>m'. dt_le (updated m) (updated m') \<and> dt_le (created m') (updated m'))
                 (run_trace clk xs ?m)"
    using ih(1) step(1) by (auto simp add: list_all_iff intro: dt_le_trans)
  show ?case using step(1) cu ih later by (auto simp add: list_all_iff)
qed

lemma run_add_calls_messages:
  "map (\<lambda>x. (role x, content x))
     (messages (session_state (run_mutations clk (map add_call calls) m)))
     = map (\<lambda>x. (role x, content x)) (messages (session_state m)) @ calls"
  by (induction calls arbitrary: m) (simp_all add: add_call_def add_message_def Let_def)

lemma init_manager_invariant:
  assumes mono: "\<forall>i j. i \<le> j \<longrightarrow> dt_le (clk i) (clk j)"
  shows "dt_le (created (init_manager clk t uuid a mo)) (updated (init_manager clk t uuid a mo))
         \<and> dt_le (updated (init_manager clk t uuid a mo))
             (clk (ticks (init_manager clk t uuid a mo)))"
  using mono by (simp add: created_def updated_def init_manager_def)

lemma clk0_mono: "\<forall>i j. i \<le> j \<longrightarrow> dt_le (clk0 i) (clk0 j)"
  by (simp add: clk0_def dt_le_def)

text \<open>
  C5. The clock's readings never decrease, and the state the manager holds was stamped
  by earlier readings: \<open>created_at\<close> is at most \<open>updated_at\<close>, which is at most the
  next reading (so it is for a manager made by \<open>SessionManager.__init__\<close>, lemma
  \<open>init_manager_invariant\<close>). Then after any sequence of \<open>add_message\<close> calls
  \<open>get_messages()\<close> returns the messages held before, followed by the roles and
  contents of the calls in their order; and along any sequence of mutations (messages,
  tool executions, clearing, agent and model changes) the values of \<open>updated_at\<close>
  never decrease and \<open>created_at\<close> is at most \<open>updated_at\<close> after every mutation.
\<close>

theorem add_message_order_and_timestamps:
  assumes mono: "\<forall>i j. i \<le> j \<longrightarrow> dt_le (clk i) (clk j)"
    and start: "dt_le (created m) (updated m)" "dt_le (updated m) (clk (ticks m))"
  shows "map (\<lambda>x. (role x, content x))
           (get_messages None 0 (run_mutations clk (map add_call calls) m))
           = map (\<lambda>x. (role x, content x)) (messages (session_state m)) @ calls
       \<and> sorted_wrt dt_le (map updated (m # run_trace clk ops m))
       \<and> list_all (\<lambda>m'. dt_le (created m') (updated m')) (m # run_trace clk ops m)"
proof -
  have tr: "list_all (\<lambda>m'. dt_le (updated m) (updated m') \<and> dt_le (created m') (updated m'))
              (run_trace clk ops m)"
    "sorted_wrt dt_le (map updated (run_trace clk ops m))"
    using run_trace_invariant [OF mono start] by simp_all
  have "map (\<lambda>x. (role x, content x))
          (get_messages None 0 (run_mutations clk (map add_call calls) m))
          = map (\<lambda>x. (role x, content x)) (messages (session_state m)) @ calls"
    by (simp add: get_messages_def slice_from_def run_add_calls_messages)
  then show ?thesis using start(1) tr by (auto simp add: list_all_iff)
qed

theorem add_message_order_and_timestamps_witness:
  "dt_le (created fresh_manager) (updated fresh_manager)
   \<and> dt_le (updated fresh_manager) (clk0 (ticks fresh_manager))
   \<and> map (\<lambda>x. (role x, content x)) (get_messages None 0 hello_manager)
       = [(''user'', ''Hello''), (''agent'', ''Hi there'')]
   \<and> map updated
       (fresh_manager # run_trace clk0 [add_call (''user'', ''Hello''), Clear_history] fresh_manager)
       = [clk0 1, clk0 3, clk0 4]
   \<and> sorted_wrt dt_le [clk0 1, clk0 3, clk0 4]"
proof -
  have st: "dt_le (created fresh_manager) (updated fresh_manager)"
    "dt_le (updated fresh_manager) (clk0 (ticks fresh_manager))"
    using init_manager_invariant [OF clk0_mono] by (simp_all add: fresh_manager_def)
  have hm: "hello_manager
      = run_mutations clk0 (map add_call [(''user'', ''Hello''), (''agent'', ''Hi there'')])
          fresh_manager"
    by (simp add: hello_manager_def add_call_def)
  have em: "messages (session_state fresh_manager) = []"
    by (simp add: fresh_manager_def init_manager_def)
  have tr: "map updated
       (fresh_manager # run_trace clk0 [add_call (''user'', ''Hello''), Clear_history] fresh_manager)
       = [clk0 1, clk0 3, clk0 4]"
    by (simp add: fresh_manager_def init_manager_def add_call_def add_message_def
        clear_history_def updated_def Let_def clk0_def)
  from add_message_order_and_timestamps [OF clk0_mono st,
      of "[(''user'', ''Hello''), (''agent'', ''Hi there'')]"
         "[add_call (''user'', ''Hello''), Clear_history]"]
  show ?thesis using st hm em tr by simp
qed

subsection \<open>Trimming the context and slicing the messages\<close>

text \<open>On a positive budget \<open>get_context\<close> returns a suffix of the projection within
  the budget; on a non-negative offset and a positive limit \<open>get_messages\<close> is
  \<open>take\<close> after \<open>drop\<close>.\<close>

lemma total_content_Cons:
  "total_content (c # cs) = int (length (snd c)) + total_content cs"
  by (simp add: total_content_def)

lemma drop_oldest_suffix: "\<exists>k. drop_oldest budget cs total_chars = drop k cs"
proof (induction cs arbitrary: total_chars)
  case Nil
  then show ?case by simp
next
  case (Cons c cs)
  show ?case
  proof (cases "total_chars > budget")
    case True
    from Cons.IH [of "total_chars - int (length (snd c))"] obtain k
      where "drop_oldest budget cs (total_chars - int (length (snd c))) = drop k cs" by blast
    with True have "drop_oldest budget (c # cs) total_chars = drop (Suc k) (c # cs)" by simp
    then show ?thesis by blast
  next
    case False
    then have "drop_oldest budget (c # cs) total_chars = drop 0 (c # cs)" by simp
    then show ?thesis by blast
  qed
qed

lemma drop_oldest_within_budget:
  "0 \<le> budget \<Longrightarrow>
     total_content (drop_oldest budget cs (total_content cs)) \<le> budget"
proof (induction cs)
  case Nil
  then show ?case by (simp add: total_content_def)
next
  case (Cons c cs)
  show ?case
  proof (cases "total_content (c # cs) > budget")
    case True
    then have "drop_oldest budget (c # cs) (total_content (c # cs))
                 = drop_oldest budget cs (total_content cs)"
      by (simp add: total_content_Cons)
    with Cons show ?thesis by simp
  next
    case False
    then show ?thesis by simp
  qed
qed

lemma get_context_positive_budget:
  assumes "0 < n"
  shows "(\<exists>k. get_context (Some n) m
               = drop k (map (\<lambda>msg. (role msg, content msg)) (messages (session_state m))))
         \<and> total_content (get_context (Some n) m) \<le> n * 4"
proof -
  let ?c = "map (\<lambda>msg. (role msg, content msg)) (messages (session_state m))"
  show ?thesis
  proof (cases "total_content ?c > n * 4")
    case True
    with assms have g: "get_context (Some n) m = drop_oldest (n * 4) ?c (total_content ?c)"
      by (simp add: get_context_def Let_def)
    from assms have "0 \<le> n * 4" by simp
    then have "total_content (drop_oldest (n * 4) ?c (total_content ?c)) \<le> n * 4"
      by (rule drop_oldest_within_budget)
    with g drop_oldest_suffix [of "n * 4" ?c "total_content ?c"] show ?thesis by simp
  next
    case False
    with assms have g: "get_context (Some n) m = drop 0 ?c"
      by (simp add: get_context_def Let_def)
    have "\<exists>k. get_context (Some n) m = drop k ?c" using g by blast
    moreover have "total_content (get_context (Some n) m) \<le> n * 4" using g False by simp
    ultimately show ?thesis by blast
  qed
qed

lemma get_messages_on_natural_arguments:
  assumes "0 \<le> offset"
  shows "get_messages None offset m = drop (nat offset) (messages (session_state m))"
    and "0 < limit \<Longrightarrow> get_messages (Some limit) offset m
           = take (nat limit) (drop (nat offset) (messages (session_state m)))"
  using assms by (simp_all add: get_messages_def slice_from_def slice_to_def Let_def)

text \<open>
  C6 at \<open>max_tokens = 0\<close>, on the transcript user "Hello", agent "Hi there": the budget
  is \<open>0\<close> characters and nothing is removed; all \<open>13\<close> characters are returned. With
  \<open>max_tokens = 1\<close> the same transcript is cut down to nothing.
\<close>

theorem get_context_zero_budget:
  "get_context (Some 0) hello_manager = [(''user'', ''Hello''), (''agent'', ''Hi there'')]
   \<and> total_content (get_context (Some 0) hello_manager) = 13
   \<and> get_context (Some 1) hello_manager = []"
  by (simp add: get_context_def hello_manager_def fresh_manager_def add_message_def
      init_manager_def Let_def total_content_def)

text \<open>
  C7 at \<open>limit = 0\<close>, on the same transcript: \<open>get_messages(limit=0)\<close> returns both
  messages, where \<open>limit=1\<close> returns one.
\<close>

theorem get_messages_zero_limit:
  "map content (get_messages (Some 0) 0 hello_manager) = [''Hello'', ''Hi there'']
   \<and> map content (get_messages (Some 1) 0 hello_manager) = [''Hello'']"
  by (simp add: get_messages_def slice_from_def slice_to_def hello_manager_def fresh_manager_def
      add_message_def init_manager_def Let_def)

section \<open>Persistence\<close>

subsection \<open>Saving and loading\<close>

lemma as_dict_list_map_JObject: "as_dict_list (map JObject cs) = Some cs"
  by (induction cs) simp_all

lemma as_opt_dict_list_tool_calls:
  "as_opt_dict_list (case tc of None \<Rightarrow> JNull | Some cs \<Rightarrow> JArray (map JObject cs)) = Some tc"
  by (cases tc) (simp_all add: as_dict_list_map_JObject)

lemma as_opt_str_error:
  "as_opt_str (case e of None \<Rightarrow> JNull | Some x \<Rightarrow> JString x) = Some e"
  by (cases e) simp_all

lemma message_round_trip:
  assumes "fromiso (isoformat (ConversationMessage.timestamp msg))
             = Some (ConversationMessage.timestamp msg)"
  shows "ConversationMessage_from_dict fromiso (ConversationMessage_to_dict msg)
           = Inr (Conforming msg)"
  using assms
  by (simp add: ConversationMessage_from_dict_def ConversationMessage_to_dict_def
      as_opt_dict_list_tool_calls)

lemma tool_round_trip:
  assumes "fromiso (isoformat (ToolExecution.timestamp tool))
             = Some (ToolExecution.timestamp tool)"
  shows "ToolExecution_from_dict fromiso (ToolExecution_to_dict tool) = Inr (Conforming tool)"
  using assms
  by (simp add: ToolExecution_from_dict_def ToolExecution_to_dict_def as_opt_str_error)



lemma map_exc_round_trip:
  "(\<forall>x \<in> set xs. f (g x) = Inr (Conforming x)) \<Longrightarrow>
     map_exc f (map g xs) = Inr (map Conforming xs)"
  by (induction xs) simp_all

lemma conforming_list_map: "conforming_list (map Conforming xs) = Some xs"
  by (induction xs) simp_all

lemma state_round_trip:
  assumes "\<forall>t \<in> set (timestamps_of s). fromiso (isoformat t) = Some t"
  shows "SessionState_from_dict fromiso (SessionState_to_dict s) = Inr (Conforming s)"
proof -
  have c: "fromiso (isoformat (created_at s)) = Some (created_at s)"
    and u: "fromiso (isoformat (updated_at s)) = Some (updated_at s)"
    using assms by (simp_all add: timestamps_of_def)
  have "\<forall>m \<in> set (messages s).
          ConversationMessage_from_dict fromiso (ConversationMessage_to_dict m) = Inr (Conforming m)"
    using assms by (auto simp add: timestamps_of_def intro!: message_round_trip)
  then have ms: "map_exc (ConversationMessage_from_dict fromiso)
                   (map ConversationMessage_to_dict (messages s))
                 = Inr (map Conforming (messages s))"
    by (rule map_exc_round_trip)
  have "\<forall>t \<in> set (tool_executions s).
          ToolExecution_from_dict fromiso (ToolExecution_to_dict t) = Inr (Conforming t)"
    using assms by (auto simp add: timestamps_of_def intro!: tool_round_trip)
  then have ts: "map_exc (ToolExecution_from_dict fromiso)
                   (map ToolExecution_to_dict (tool_executions s))
                 = Inr (map Conforming (tool_executions s))"
    by (rule map_exc_round_trip)
  show ?thesis
    by (simp add: SessionState_from_dict_def SessionState_to_dict_def c u ms ts
        conforming_list_map)
qed

text \<open>
  C2. When the parser reads back every timestamp of the state from the text
  \<open>isoformat\<close> writes for it, and \<open>save_session\<close> returns path \<open>p\<close>, then
  \<open>load_session\<close> on \<open>p\<close> returns a state equal to the saved one in every field, the
  lists of messages and tool executions included.
\<close>

theorem save_then_load_round_trip:
  assumes stamps: "\<forall>t \<in> set (timestamps_of s). fromiso (isoformat t) = Some t"
    and saved: "save_session history_dir fs s path = Inr (p, fs')"
  shows "load_session fromiso fs' p = Inr (Some (Conforming s))"
proof -
  from saved have "\<not> has_nul p \<and> fs' p = Some (File (Json_doc (SessionState_to_dict s)))"
    by (auto simp add: save_session_def write_file_def Let_def
        split: option.splits node.splits if_splits)
  then show ?thesis
    by (simp add: load_session_def open_read_def state_round_trip [OF stamps])
qed

lemma replicate_numeral: "replicate (numeral k) x = x # replicate (pred_numeral k) x"
  by (simp add: numeral_eq_Suc)

lemmas eval_text = str_nat.simps zpad_def digit_char_def replicate_numeral

lemmas eval_sample = sample_state_def add_tool_execution_def hello_manager_def
  add_message_def fresh_manager_def init_manager_def Let_def clk0_def

lemma sample_stamps:
  "\<forall>t \<in> set (timestamps_of sample_state). fromisoformat_naive (isoformat t) = Some t"
  by (simp add: timestamps_of_def eval_sample eval_text fromisoformat_naive_def parse_nat_def
      digit_of_def)

lemma sample_saved:
  "save_session ''/home/user/.orbiton/history'' Map.empty sample_state None
     = Inr (sample_path, [sample_path \<mapsto> File (Json_doc (SessionState_to_dict sample_state))])"
proof -
  have "''/home/user/.orbiton/history'' @ ''/'' @ ''session_'' @ take 8 (session_id sample_state)
          @ ''_'' @ strftime_compact (created_at sample_state) @ ''.json'' = sample_path"
    by (simp add: eval_sample eval_text sample_path_def)
  moreover have "\<not> has_nul sample_path"
    by (simp add: has_nul_def sample_path_def)
  ultimately show ?thesis by (simp add: save_session_def write_file_def Let_def)
qed

theorem save_then_load_round_trip_witness:
  "save_session ''/home/user/.orbiton/history'' Map.empty sample_state None
     = Inr (sample_path, [sample_path \<mapsto> File (Json_doc (SessionState_to_dict sample_state))])
   \<and> load_session fromisoformat_naive
        [sample_path \<mapsto> File (Json_doc (SessionState_to_dict sample_state))] sample_path
     = Inr (Some (Conforming sample_state))
   \<and> length (messages sample_state) = 2 \<and> length (tool_executions sample_state) = 1"
proof -
  have n: "length (messages sample_state) = 2 \<and> length (tool_executions sample_state) = 1"
    by (simp add: eval_sample)
  from save_then_load_round_trip [OF sample_stamps sample_saved] sample_saved n
  show ?thesis by simp
qed

subsection \<open>What \<open>load_session\<close> catches\<close>

lemma bind_exc_Inl:
  "bind_exc a f = Inl e \<Longrightarrow> a = Inl e \<or> (\<exists>x. a = Inr x \<and> f x = Inl e)"
  by (cases a) simp_all

lemma getitem_KeyError:
  "getitem j k = Inl (Exc KeyError k') \<Longrightarrow> lacks_key j k"
  by (cases j) (simp_all split: option.splits)

lemma get_default_no_KeyError: "get_default j k d \<noteq> Inl (Exc KeyError k')"
  by (cases j) (simp_all split: option.splits)

lemma parse_timestamp_no_KeyError: "parse_timestamp fromiso j \<noteq> Inl (Exc KeyError k')"
  by (cases j) (simp_all split: option.splits)

lemma py_iter_no_KeyError: "py_iter j \<noteq> Inl (Exc KeyError k')"
  by (cases j) simp_all

lemma map_exc_Inl:
  "map_exc f xs = Inl e \<Longrightarrow> \<exists>x \<in> set xs. f x = Inl e"
  by (induction xs) (auto dest!: bind_exc_Inl)

lemma message_KeyError:
  assumes "ConversationMessage_from_dict fromiso msg = Inl (Exc KeyError k)"
  shows "list_ex (lacks_key msg) [''role'', ''content'', ''timestamp'']"
  using assms unfolding ConversationMessage_from_dict_def
  by (auto dest!: bind_exc_Inl
      simp add: get_default_no_KeyError parse_timestamp_no_KeyError
      dest: getitem_KeyError)

lemma tool_KeyError:
  assumes "ToolExecution_from_dict fromiso tool = Inl (Exc KeyError k)"
  shows "list_ex (lacks_key tool)
           [''tool_name'', ''arguments'', ''result'', ''execution_time'', ''timestamp'']"
  using assms unfolding ToolExecution_from_dict_def
  by (auto dest!: bind_exc_Inl
      simp add: get_default_no_KeyError parse_timestamp_no_KeyError
      dest: getitem_KeyError)

lemma lacks_key_is_object: "lacks_key j k \<Longrightarrow> \<exists>kvs. j = JObject kvs"
  by (cases j) simp_all

text \<open>The items a comprehension runs over are the array's, when one of them is an object.\<close>

lemma iterated_object_in_array:
  assumes "get_default data k (JArray []) = Inr v" and "py_iter v = Inr items"
    and "JObject kvs \<in> set items"
  shows "JObject kvs \<in> set (array_items data k)"
proof (cases data)
  case (JObject dkvs)
  show ?thesis
  proof (cases v)
    case (JArray xs)
    with assms JObject show ?thesis by (auto split: option.splits)
  qed (use assms in auto)
qed (use assms in auto)

lemma state_KeyError:
  assumes "SessionState_from_dict fromiso data = Inl (Exc KeyError k)"
  shows "required_key_absent data"
proof -
  note d = bind_exc_Inl
  from assms consider
      (top) "getitem data ''session_id'' = Inl (Exc KeyError k)
             \<or> getitem data ''created_at'' = Inl (Exc KeyError k)
             \<or> getitem data ''updated_at'' = Inl (Exc KeyError k)"
    | (msg) v items where "get_default data ''messages'' (JArray []) = Inr v"
        "py_iter v = Inr items"
        "map_exc (ConversationMessage_from_dict fromiso) items = Inl (Exc KeyError k)"
    | (tool) v items where "get_default data ''tool_executions'' (JArray []) = Inr v"
        "py_iter v = Inr items"
        "map_exc (ToolExecution_from_dict fromiso) items = Inl (Exc KeyError k)"
    unfolding SessionState_from_dict_def
    by (auto dest!: bind_exc_Inl
        simp add: get_default_no_KeyError parse_timestamp_no_KeyError py_iter_no_KeyError)
  then show ?thesis
  proof cases
    case top
    then show ?thesis by (auto simp add: required_key_absent_def dest: getitem_KeyError)
  next
    case msg
    from map_exc_Inl [OF msg(3)] obtain x where x: "x \<in> set items"
      "ConversationMessage_from_dict fromiso x = Inl (Exc KeyError k)" by blast
    from message_KeyError [OF x(2)]
    have l: "list_ex (lacks_key x) [''role'', ''content'', ''timestamp'']" .
    then obtain kvs where "x = JObject kvs" by (auto dest: lacks_key_is_object)
    with x(1) iterated_object_in_array [OF msg(1) msg(2)]
    have "x \<in> set (array_items data ''messages'')" by simp
    with l show ?thesis by (auto simp add: required_key_absent_def list_ex_iff)
  next
    case tool
    from map_exc_Inl [OF tool(3)] obtain x where x: "x \<in> set items"
      "ToolExecution_from_dict fromiso x = Inl (Exc KeyError k)" by blast
    from tool_KeyError [OF x(2)]
    have l: "list_ex (lacks_key x)
               [''tool_name'', ''arguments'', ''result'', ''execution_time'', ''timestamp'']" .
    then obtain kvs where "x = JObject kvs" by (auto dest: lacks_key_is_object)
    with x(1) iterated_object_in_array [OF tool(1) tool(2)]
    have "x \<in> set (array_items data ''tool_executions'')" by simp
    with l show ?thesis by (auto simp add: required_key_absent_def list_ex_iff)
  qed
qed

lemma getitem_classes: "getitem j k = Inl e \<Longrightarrow> exc_class_of e \<in> set raised_classes"
  by (cases j) (auto simp add: raised_classes_def split: option.splits)

lemma get_default_classes:
  "get_default j k d = Inl e \<Longrightarrow> exc_class_of e \<in> set raised_classes"
  by (cases j) (auto simp add: raised_classes_def split: option.splits)

lemma parse_timestamp_classes:
  "parse_timestamp fromiso j = Inl e \<Longrightarrow> exc_class_of e \<in> set raised_classes"
  by (cases j) (auto simp add: raised_classes_def split: option.splits)

lemma py_iter_classes: "py_iter j = Inl e \<Longrightarrow> exc_class_of e \<in> set raised_classes"
  by (cases j) (auto simp add: raised_classes_def)

lemmas call_classes =
  getitem_classes get_default_classes parse_timestamp_classes py_iter_classes

lemma message_classes:
  "ConversationMessage_from_dict fromiso msg = Inl e \<Longrightarrow> exc_class_of e \<in> set raised_classes"
  unfolding ConversationMessage_from_dict_def
  by (auto dest!: bind_exc_Inl dest: call_classes)

lemma tool_classes:
  "ToolExecution_from_dict fromiso tool = Inl e \<Longrightarrow> exc_class_of e \<in> set raised_classes"
  unfolding ToolExecution_from_dict_def
  by (auto dest!: bind_exc_Inl dest: call_classes)

lemma state_classes:
  "SessionState_from_dict fromiso data = Inl e \<Longrightarrow> exc_class_of e \<in> set raised_classes"
  unfolding SessionState_from_dict_def
  by (auto dest!: bind_exc_Inl map_exc_Inl dest: call_classes message_classes tool_classes)

lemma load_session_of_document:
  assumes "\<not> has_nul path" and "fs path = Some (File (Json_doc data))"
  shows "load_session fromiso fs path =
           (case SessionState_from_dict fromiso data of
              Inr s \<Rightarrow> Inr (Some s)
            | Inl e \<Rightarrow> if exc_class_of e = KeyError then Inr None else Inl e)"
proof (cases "SessionState_from_dict fromiso data")
  case (Inl e)
  from state_classes [OF Inl] have "exc_class_of e \<noteq> FileNotFoundError"
    "exc_class_of e \<noteq> JSONDecodeError" by (auto simp add: raised_classes_def)
  with Inl assms show ?thesis by (simp add: load_session_def open_read_def)
next
  case (Inr s)
  with assms show ?thesis by (simp add: load_session_def open_read_def)
qed

lemma load_session_None_iff:
  "(load_session fromiso fs path = Inr None)
     = (\<not> has_nul path
        \<and> (fs path = None
           \<or> (\<exists>c. fs path = Some (Open_raises c) \<and> caught_on_load c)
           \<or> (\<exists>t. fs path = Some (File (Plain t)))
           \<or> (\<exists>c. fs path = Some (File (Unreadable c)) \<and> caught_on_load c)
           \<or> (\<exists>data k. fs path = Some (File (Json_doc data))
                 \<and> SessionState_from_dict fromiso data = Inl (Exc KeyError k))))"
proof (cases "has_nul path")
  case True
  then show ?thesis by (simp add: load_session_def open_read_def)
next
  case nul: False
  show ?thesis
  proof (cases "fs path")
    case None
    with nul show ?thesis by (simp add: load_session_def open_read_def)
  next
    case (Some n)
    show ?thesis
    proof (cases n)
      case Dir
      with nul Some show ?thesis by (simp add: load_session_def open_read_def)
    next
      case (Open_raises c)
      with nul Some show ?thesis
        by (simp add: load_session_def open_read_def caught_on_load_def)
    next
      case (File c)
      show ?thesis
      proof (cases c)
        case (Plain t)
        with nul Some File show ?thesis by (simp add: load_session_def open_read_def)
      next
        case (Unreadable x)
        with nul Some File show ?thesis
          by (simp add: load_session_def open_read_def caught_on_load_def)
      next
        case (Json_doc data)
        with Some File have f: "fs path = Some (File (Json_doc data))" by simp
        show ?thesis
        proof (cases "SessionState_from_dict fromiso data")
          case (Inr s)
          with f nul show ?thesis by (simp add: load_session_of_document)
        next
          case (Inl e)
          obtain c m where e: "e = Exc c m" by (cases e)
          with f nul Inl show ?thesis by (simp add: load_session_of_document)
        qed
      qed
    qed
  qed
qed

lemma load_session_open_failures:
  "(has_nul path \<longrightarrow>
      load_session fromiso fs path = Inl (Exc ValueError ''embedded null byte''))
   \<and> (\<not> has_nul path \<and> fs path = Some Dir \<longrightarrow>
        load_session fromiso fs path = Inl (Exc IsADirectoryError path))
   \<and> (\<forall>c. \<not> has_nul path \<and> fs path = Some (Open_raises c) \<and> \<not> caught_on_load c \<longrightarrow>
        load_session fromiso fs path = Inl (Exc c path))
   \<and> (\<forall>c. \<not> has_nul path \<and> fs path = Some (File (Unreadable c)) \<and> \<not> caught_on_load c \<longrightarrow>
        load_session fromiso fs path = Inl (Exc c []))"
  by (simp add: load_session_def open_read_def caught_on_load_def)

lemma load_session_propagates:
  assumes "\<not> has_nul path" and "fs path = Some (File (Json_doc data))"
    and "SessionState_from_dict fromiso data = Inl e" and "exc_class_of e \<noteq> KeyError"
  shows "load_session fromiso fs path = Inl e"
  using assms by (simp add: load_session_of_document)

lemma created_at_ValueError:
  assumes "map_of kvs ''session_id'' = Some sid"
    and "map_of kvs ''created_at'' = Some (JString ts)" and "fromiso ts = None"
  shows "SessionState_from_dict fromiso (JObject kvs) = Inl (Exc ValueError ts)"
  using assms by (simp add: SessionState_from_dict_def)

lemma updated_at_ValueError:
  assumes "map_of kvs ''session_id'' = Some sid"
    and "map_of kvs ''created_at'' = Some (JString tc)" and "fromiso tc = Some d"
    and "map_of kvs ''updated_at'' = Some (JString ts)" and "fromiso ts = None"
  shows "SessionState_from_dict fromiso (JObject kvs) = Inl (Exc ValueError ts)"
  using assms by (simp add: SessionState_from_dict_def)

lemma message_timestamp_ValueError:
  assumes "map_of kvs ''session_id'' = Some sid"
    and "map_of kvs ''created_at'' = Some (JString tc)" and "fromiso tc = Some d"
    and "map_of kvs ''updated_at'' = Some (JString tu)" and "fromiso tu = Some d'"
    and "map_of kvs ''messages'' = Some (JArray (JObject mkvs # rest))"
    and "map_of mkvs ''role'' = Some r" and "map_of mkvs ''content'' = Some c"
    and "map_of mkvs ''timestamp'' = Some (JString ts)" and "fromiso ts = None"
  shows "SessionState_from_dict fromiso (JObject kvs) = Inl (Exc ValueError ts)"
  using assms by (simp add: SessionState_from_dict_def ConversationMessage_from_dict_def)

text \<open>
  C10, amended. \<open>load_session\<close> returns \<open>None\<close> exactly when the exception raised
  in its \<open>try\<close> block is a \<open>FileNotFoundError\<close> (\<open>open\<close> finds nothing at the path),
  a \<open>JSONDecodeError\<close> (the text is not JSON) or a \<open>KeyError\<close>; deserialisation
  raises a \<open>KeyError\<close> only for a document from which a required key is absent. Every
  other exception leaves \<open>load_session\<close>: those of \<open>open\<close> (\<open>ValueError\<close> for a NUL
  in the path, \<open>IsADirectoryError\<close>, \<open>NotADirectoryError\<close>, \<open>PermissionError\<close>),
  those of reading and parsing (\<open>UnicodeDecodeError\<close>, \<open>RecursionError\<close>) and those of
  deserialisation: so does a \<open>created_at\<close>, an \<open>updated_at\<close> or a first message's
  \<open>timestamp\<close> that the parser rejects, when the keys read before it are present and
  valid, whatever is absent after it.
\<close>

theorem load_session_soft_failure:
  "(load_session fromiso fs path = Inr None)
     = (\<not> has_nul path
        \<and> (fs path = None
           \<or> (\<exists>c. fs path = Some (Open_raises c) \<and> caught_on_load c)
           \<or> (\<exists>t. fs path = Some (File (Plain t)))
           \<or> (\<exists>c. fs path = Some (File (Unreadable c)) \<and> caught_on_load c)
           \<or> (\<exists>data k. fs path = Some (File (Json_doc data))
                 \<and> SessionState_from_dict fromiso data = Inl (Exc KeyError k))))
   \<and> (\<forall>data k. SessionState_from_dict fromiso data = Inl (Exc KeyError k)
         \<longrightarrow> required_key_absent data)
   \<and> (has_nul path \<longrightarrow>
        load_session fromiso fs path = Inl (Exc ValueError ''embedded null byte''))
   \<and> (\<not> has_nul path \<and> fs path = Some Dir \<longrightarrow>
        load_session fromiso fs path = Inl (Exc IsADirectoryError path))
   \<and> (\<forall>c. \<not> has_nul path \<and> fs path = Some (Open_raises c) \<and> \<not> caught_on_load c \<longrightarrow>
        load_session fromiso fs path = Inl (Exc c path))
   \<and> (\<forall>c. \<not> has_nul path \<and> fs path = Some (File (Unreadable c)) \<and> \<not> caught_on_load c \<longrightarrow>
        load_session fromiso fs path = Inl (Exc c []))
   \<and> (\<forall>data e. \<not> has_nul path \<and> fs path = Some (File (Json_doc data))
         \<and> SessionState_from_dict fromiso data = Inl e \<and> exc_class_of e \<noteq> KeyError
         \<longrightarrow> load_session fromiso fs path = Inl e)
   \<and> (\<forall>kvs sid ts. map_of kvs ''session_id'' = Some sid
         \<and> map_of kvs ''created_at'' = Some (JString ts) \<and> fromiso ts = None
         \<longrightarrow> SessionState_from_dict fromiso (JObject kvs) = Inl (Exc ValueError ts))
   \<and> (\<forall>kvs sid tc d ts. map_of kvs ''session_id'' = Some sid
         \<and> map_of kvs ''created_at'' = Some (JString tc) \<and> fromiso tc = Some d
         \<and> map_of kvs ''updated_at'' = Some (JString ts) \<and> fromiso ts = None
         \<longrightarrow> SessionState_from_dict fromiso (JObject kvs) = Inl (Exc ValueError ts))
   \<and> (\<forall>kvs sid tc d tu d' mkvs rest r c ts. map_of kvs ''session_id'' = Some sid
         \<and> map_of kvs ''created_at'' = Some (JString tc) \<and> fromiso tc = Some d
         \<and> map_of kvs ''updated_at'' = Some (JString tu) \<and> fromiso tu = Some d'
         \<and> map_of kvs ''messages'' = Some (JArray (JObject mkvs # rest))
         \<and> map_of mkvs ''role'' = Some r \<and> map_of mkvs ''content'' = Some c
         \<and> map_of mkvs ''timestamp'' = Some (JString ts) \<and> fromiso ts = None
         \<longrightarrow> SessionState_from_dict fromiso (JObject kvs) = Inl (Exc ValueError ts))"
proof -
  note o = load_session_open_failures [of path fromiso fs]
  have p: "\<forall>data e. \<not> has_nul path \<and> fs path = Some (File (Json_doc data))
         \<and> SessionState_from_dict fromiso data = Inl e \<and> exc_class_of e \<noteq> KeyError
         \<longrightarrow> load_session fromiso fs path = Inl e"
    by (auto intro: load_session_propagates)
  have k: "\<forall>data k. SessionState_from_dict fromiso data = Inl (Exc KeyError k)
         \<longrightarrow> required_key_absent data"
    by (auto intro: state_KeyError)
  have c: "\<forall>kvs sid ts. map_of kvs ''session_id'' = Some sid
         \<and> map_of kvs ''created_at'' = Some (JString ts) \<and> fromiso ts = None
         \<longrightarrow> SessionState_from_dict fromiso (JObject kvs) = Inl (Exc ValueError ts)"
    by (auto intro: created_at_ValueError)
  have u: "\<forall>kvs sid tc d ts. map_of kvs ''session_id'' = Some sid
         \<and> map_of kvs ''created_at'' = Some (JString tc) \<and> fromiso tc = Some d
         \<and> map_of kvs ''updated_at'' = Some (JString ts) \<and> fromiso ts = None
         \<longrightarrow> SessionState_from_dict fromiso (JObject kvs) = Inl (Exc ValueError ts)"
    by (auto intro: updated_at_ValueError)
  have m: "\<forall>kvs sid tc d tu d' mkvs rest r c ts. map_of kvs ''session_id'' = Some sid
         \<and> map_of kvs ''created_at'' = Some (JString tc) \<and> fromiso tc = Some d
         \<and> map_of kvs ''updated_at'' = Some (JString tu) \<and> fromiso tu = Some d'
         \<and> map_of kvs ''messages'' = Some (JArray (JObject mkvs # rest))
         \<and> map_of mkvs ''role'' = Some r \<and> map_of mkvs ''content'' = Some c
         \<and> map_of mkvs ''timestamp'' = Some (JString ts) \<and> fromiso ts = None
         \<longrightarrow> SessionState_from_dict fromiso (JObject kvs) = Inl (Exc ValueError ts)"
    by (auto intro: message_timestamp_ValueError)
  from load_session_None_iff [of fromiso fs path] o p k c u m show ?thesis by blast
qed

text \<open>
  C10, as stated, fails on a document from which a required key is absent and which
  holds an invalid timestamp under a key read earlier: \<open>updated_at\<close> is missing,
  \<open>created_at\<close> is not a date, and \<open>load_session\<close> raises \<open>ValueError\<close> instead of
  returning \<open>None\<close>.
\<close>

theorem load_session_absent_key_counterexample:
  "required_key_absent half_document
   \<and> load_session fromisoformat_naive [''s.json'' \<mapsto> File (Json_doc half_document)] ''s.json''
       = Inl (Exc ValueError ''yesterday'')"
  by (simp add: required_key_absent_def half_document_def load_session_def open_read_def
      has_nul_def SessionState_from_dict_def fromisoformat_naive_def)

theorem load_session_soft_failure_witness:
  "load_session fromisoformat_naive Map.empty ''s.json'' = Inr None
   \<and> load_session fromisoformat_naive [''s.json'' \<mapsto> File (Plain ''{'')] ''s.json'' = Inr None
   \<and> load_session fromisoformat_naive
        [''s.json'' \<mapsto> File (Json_doc (JObject [(''session_id'', JString ''3f2b8c1e'')]))] ''s.json''
       = Inr None
   \<and> load_session fromisoformat_naive [''s.json'' \<mapsto> File (Json_doc half_document)] ''s.json''
       = Inl (Exc ValueError ''yesterday'')
   \<and> load_session fromisoformat_naive [''s.json'' \<mapsto> File (Unreadable UnicodeDecodeError)]
        ''s.json''
       = Inl (Exc UnicodeDecodeError [])
   \<and> load_session fromisoformat_naive [''s.json'' \<mapsto> File (Unreadable RecursionError)]
        ''s.json''
       = Inl (Exc RecursionError [])
   \<and> load_session fromisoformat_naive [''a/s.json'' \<mapsto> Open_raises NotADirectoryError]
        ''a/s.json''
       = Inl (Exc NotADirectoryError ''a/s.json'')
   \<and> load_session fromisoformat_naive Map.empty [CHR ''s'', CHR 0x00]
       = Inl (Exc ValueError ''embedded null byte'')"
proof -
  have n: "fromisoformat_naive ''yesterday'' = None" by (simp add: fromisoformat_naive_def)
  have z: "\<not> has_nul ''s.json''" "\<not> has_nul ''a/s.json''" "has_nul [CHR ''s'', CHR 0x00]"
    by (simp_all add: has_nul_def)
  have q: "\<not> caught_on_load UnicodeDecodeError" "\<not> caught_on_load RecursionError"
    "\<not> caught_on_load NotADirectoryError"
    by (simp_all add: caught_on_load_def)
  have k: "SessionState_from_dict fromisoformat_naive (JObject [(''session_id'', JString ''3f2b8c1e'')])
             = Inl (Exc KeyError ''created_at'')"
    by (simp add: SessionState_from_dict_def)
  note t = load_session_soft_failure [of fromisoformat_naive]
  have a: "load_session fromisoformat_naive Map.empty ''s.json'' = Inr None"
    using t [of Map.empty "''s.json''"] z by simp
  have b: "load_session fromisoformat_naive [''s.json'' \<mapsto> File (Plain ''{'')] ''s.json'' = Inr None"
    using t [of "[''s.json'' \<mapsto> File (Plain ''{'')]" "''s.json''"] z by simp
  have c: "load_session fromisoformat_naive
        [''s.json'' \<mapsto> File (Json_doc (JObject [(''session_id'', JString ''3f2b8c1e'')]))] ''s.json''
       = Inr None"
    using t [of "[''s.json'' \<mapsto> File (Json_doc (JObject [(''session_id'', JString ''3f2b8c1e'')]))]"
        "''s.json''"] k z by simp
  have v: "SessionState_from_dict fromisoformat_naive half_document = Inl (Exc ValueError ''yesterday'')"
    using t [of Map.empty "''s.json''"] n by (simp add: half_document_def)
  have d: "load_session fromisoformat_naive [''s.json'' \<mapsto> File (Json_doc half_document)] ''s.json''
       = Inl (Exc ValueError ''yesterday'')"
    using t [of "[''s.json'' \<mapsto> File (Json_doc half_document)]" "''s.json''"] v z
    by (simp add: half_document_def)
  have e: "load_session fromisoformat_naive [''s.json'' \<mapsto> File (Unreadable UnicodeDecodeError)]
        ''s.json'' = Inl (Exc UnicodeDecodeError [])"
    using t [of "[''s.json'' \<mapsto> File (Unreadable UnicodeDecodeError)]" "''s.json''"] z q
    by simp
  have f: "load_session fromisoformat_naive [''s.json'' \<mapsto> File (Unreadable RecursionError)]
        ''s.json'' = Inl (Exc RecursionError [])"
    using t [of "[''s.json'' \<mapsto> File (Unreadable RecursionError)]" "''s.json''"] z q
    by simp
  have g: "load_session fromisoformat_naive [''a/s.json'' \<mapsto> Open_raises NotADirectoryError]
        ''a/s.json'' = Inl (Exc NotADirectoryError ''a/s.json'')"
    using t [of "[''a/s.json'' \<mapsto> Open_raises NotADirectoryError]" "''a/s.json''"] z q
    by simp
  have h: "load_session fromisoformat_naive Map.empty [CHR ''s'', CHR 0x00]
       = Inl (Exc ValueError ''embedded null byte'')"
    using t [of Map.empty "[CHR ''s'', CHR 0x00]"] z by simp
  from a b c d e f g h show ?thesis by simp
qed

subsection \<open>Export\<close>

lemma endswith_append: "endswith (a @ b) b"
  by (simp add: endswith_def)

lemma cmd_save_filename_extension:
  "endswith (cmd_save_filename now args) ''.md''
   \<or> endswith (cmd_save_filename now args) ''.json''
   \<or> endswith (cmd_save_filename now args) ''.txt''"
  by (auto simp add: cmd_save_filename_def Let_def endswith_append)

text \<open>
  C9, amended. \<open>export_session\<close> infers nothing: with the format left out it writes
  markdown, to the file name itself when it ends in \<open>.md\<close> and to the name with
  \<open>.md\<close> appended otherwise. The inference is the save command's: it appends
  \<open>.md\<close> to a name that ends in none of \<open>.md\<close>, \<open>.json\<close>, \<open>.txt\<close>, and asks
  \<open>export_session\<close> for JSON, plain text or markdown as the name ends in \<open>.json\<close>,
  \<open>.txt\<close> or neither.
\<close>

theorem export_session_format:
  "export_session dumps upper cwd fs s filename None
     = write_file fs
         (resolve_export_path cwd
            (if endswith filename ''.md'' then filename else filename @ ''.md''))
         (Plain (format_markdown dumps s))
   \<and> cmd_save dumps upper cwd fs now s args
     = write_file fs (resolve_export_path cwd (cmd_save_filename now args))
         (if endswith (cmd_save_filename now args) ''.json''
          then Json_doc (SessionState_to_dict s)
          else if endswith (cmd_save_filename now args) ''.txt''
          then Plain (format_text upper s)
          else Plain (format_markdown dumps s))"
proof -
  let ?f = "cmd_save_filename now args"
  have "endswith ?f ''.md'' \<or> endswith ?f ''.json'' \<or> endswith ?f ''.txt''"
    by (rule cmd_save_filename_extension)
  then have "cmd_save dumps upper cwd fs now s args
     = write_file fs (resolve_export_path cwd ?f)
         (if endswith ?f ''.json'' then Json_doc (SessionState_to_dict s)
          else if endswith ?f ''.txt'' then Plain (format_text upper s)
          else Plain (format_markdown dumps s))"
    by (auto simp add: cmd_save_def cmd_save_format_def export_session_def Let_def)
  then show ?thesis by (simp add: export_session_def Let_def)
qed

text \<open>
  C9, as stated, fails: \<open>export_session(state, "notes.json")\<close> writes markdown to
  \<open>notes.json.md\<close>.
\<close>

theorem export_session_no_inference_counterexample:
  "export_session (\<lambda>j. []) (\<lambda>r. r) ''/work'' Map.empty (session_state hello_manager)
     ''notes.json'' None
     = Inr (''/work/notes.json.md'',
            [''/work/notes.json.md''
               \<mapsto> File (Plain (format_markdown (\<lambda>j. []) (session_state hello_manager)))])"
  by (simp add: export_session_def write_file_def has_nul_def resolve_export_path_def
      endswith_def Let_def)

text \<open>The scenario of the specification: user "Hello", then agent "Hi there". The
  document has the session id in its header, then the user section, then the agent
  section, and no tool section.\<close>

lemma format_markdown_hello_scenario:
  "markdown_lines dumps (session_state hello_manager)
     = [''# Orbiton Agent Conversation'', [],
        ''**Session ID:** 3f2b8c1e-5d4a-4b6f-9c1d-2e7a8b9c0d1e'',
        ''**Created:** 2025-01-15 10:30:00'',
        ''**Updated:** 2025-01-15 10:30:00'',
        ''**Agent:** react'',
        ''**Model:** claude-sonnet-4'', [], ''---'', [],
        ''## '' @ user_marker @ '' User [10:30:00]'', [], ''Hello'', [],
        ''## '' @ agent_marker @ '' Agent [10:30:00]'', [], ''Hi there'', []]"
  by (simp add: markdown_lines_def markdown_header_def markdown_message_def markdown_tools_def
      hello_manager_def fresh_manager_def add_message_def init_manager_def Let_def clk0_def
      eval_text)

text \<open>The document is made of three parts, in this order, whatever the state.\<close>

lemma format_markdown_sections:
  "format_markdown dumps s
     = py_join newline
         (markdown_header s @ concat (map markdown_message (messages s))
            @ markdown_tools dumps s)
   \<and> (tool_executions s = [] \<longrightarrow> markdown_tools dumps s = [])
   \<and> (role msg \<noteq> ''user'' \<and> role msg \<noteq> ''agent'' \<and> role msg \<noteq> ''system''
         \<longrightarrow> markdown_message msg = [])"
  by (simp add: format_markdown_def markdown_lines_def markdown_tools_def markdown_message_def)

text \<open>
  C8 on the transcript user "Hello", tool "42", agent "Hi there": the markdown export
  is the header, the user section and the agent section; the message of role \<open>tool\<close>
  is in no line of it, while the plain text export of the same state has it.
\<close>

theorem format_markdown_other_role:
  "map (\<lambda>m. (role m, content m)) (messages (session_state tool_role_manager))
     = [(''user'', ''Hello''), (''tool'', ''42''), (''agent'', ''Hi there'')]
   \<and> markdown_lines (\<lambda>j. []) (session_state tool_role_manager)
     = markdown_header (session_state tool_role_manager)
       @ [''## '' @ user_marker @ '' User [10:30:00]'', [], ''Hello'', [],
          ''## '' @ agent_marker @ '' Agent [10:30:00]'', [], ''Hi there'', []]
   \<and> format_markdown (\<lambda>j. []) (session_state tool_role_manager)
     = py_join newline (markdown_lines (\<lambda>j. []) (session_state tool_role_manager))
   \<and> ''42'' \<notin> set (markdown_lines (\<lambda>j. []) (session_state tool_role_manager))
   \<and> ''42'' \<in> set (text_lines (\<lambda>r. r) (session_state tool_role_manager))"
  by (simp add: markdown_lines_def markdown_header_def markdown_message_def markdown_tools_def
      format_markdown_def text_lines_def text_message_def role_display_def
      tool_role_manager_def fresh_manager_def add_message_def init_manager_def Let_def clk0_def
      eval_text)

end
